theory Spec2Isabelle
  imports Complex_Main "HOL-Library.Sublist"
begin

section \<open>Python values and the operations the backend applies to them\<close>

text \<open>
  Every value that travels through the backend is a JSON value as \<^verbatim>\<open>json.loads\<close> builds it:
  \<^verbatim>\<open>None\<close>, a bool, an int, a float, a str, a list or a dict with string keys. A dict is an
  association list read with \<open>map_of\<close> (a Python dict has each key once). Python's
  \<^verbatim>\<open>None\<close> and JSON's \<^verbatim>\<open>null\<close> are the same object, \<open>JNull\<close>. Floats are finite reals
  (\<^verbatim>\<open>nan\<close> and the infinities are left out). An int has at most 4300 decimal digits:
  \<^verbatim>\<open>json.loads\<close> and \<^verbatim>\<open>int()\<close> refuse a longer literal (the interpreter's limit for
  conversions between int and str), so no longer int reaches the backend.
\<close>

datatype json =
    JNull
  | JBool bool
  | JInt int
  | JFloat real
  | JStr string
  | JArray "json list"
  | JObject "(string \<times> json) list"

text \<open>
  Exceptions are values. Each constructor is a Python exception class and carries what
  \<^verbatim>\<open>str(e)\<close> prints. All of them are subclasses of \<^verbatim>\<open>Exception\<close>;
  \<^verbatim>\<open>asyncio.CancelledError\<close>, which is not, is modelled where it can arrive (the outcome of an
  await), not as a member of this type.
\<close>

datatype exn =
    AttributeError string
  | TypeError string
  | KeyError string
  | ValueError string
  | OverflowError string
  | JSONDecodeError string
  | UnboundLocalError string
  | TimeoutError
  | ConnectionError string
  | OtherException string

fun exn_str :: "exn \<Rightarrow> string" where
  "exn_str (AttributeError m) = m"
| "exn_str (TypeError m) = m"
| "exn_str (KeyError k) = [CHR 0x27] @ k @ [CHR 0x27]"
| "exn_str (ValueError m) = m"
| "exn_str (OverflowError m) = m"
| "exn_str (JSONDecodeError m) = m"
| "exn_str (UnboundLocalError m) = m"
| "exn_str TimeoutError = []"
| "exn_str (ConnectionError m) = m"
| "exn_str (OtherException m) = m"

text \<open>
  The standard-library and third-party functions the handlers call are parameters of the
  model: the JSON codec (\<open>None\<close> is the \<^verbatim>\<open>JSONDecodeError\<close>), \<^verbatim>\<open>str()\<close> of floats and
  containers, the weather agent (the text of the first content block of its answer to a
  prompt, or the exception raised on the way to it), the regular-expression substitution
  of the weather tool, and the text of the n-th UUID.
\<close>

record pylib =
  json_loads_str :: "string \<Rightarrow> json option"
  json_dumps :: "json \<Rightarrow> string"
  str_other :: "json \<Rightarrow> string"
  weather_agent :: "string \<Rightarrow> exn + string"
  re_sub_thinking :: "string \<Rightarrow> string"
  uuid4_str :: "nat \<Rightarrow> string"

fun type_name :: "json \<Rightarrow> string" where
  "type_name JNull = ''NoneType''"
| "type_name (JBool _) = ''bool''"
| "type_name (JInt _) = ''int''"
| "type_name (JFloat _) = ''float''"
| "type_name (JStr _) = ''str''"
| "type_name (JArray _) = ''list''"
| "type_name (JObject _) = ''dict''"

text \<open>A text between single quotes, as f-strings and \<^verbatim>\<open>repr\<close> of a plain word write it.\<close>

definition quoted :: "string \<Rightarrow> string" where
  "quoted s = [CHR 0x27] @ s @ [CHR 0x27]"

definition no_attribute :: "json \<Rightarrow> string \<Rightarrow> exn" where
  "no_attribute v a =
     AttributeError (quoted (type_name v) @ '' object has no attribute '' @ quoted a)"

text \<open>\<^verbatim>\<open>d.get(k, default)\<close>: an \<^verbatim>\<open>AttributeError\<close> on anything but a dict.\<close>

fun py_get :: "json \<Rightarrow> string \<Rightarrow> json \<Rightarrow> exn + json" where
  "py_get (JObject kv) k d = Inr (case map_of kv k of None \<Rightarrow> d | Some v \<Rightarrow> v)"
| "py_get v k d = Inl (no_attribute v ''get'')"

text \<open>Truthiness, as \<^verbatim>\<open>if not x\<close> tests it.\<close>

fun truthy :: "json \<Rightarrow> bool" where
  "truthy JNull = False"
| "truthy (JBool b) = b"
| "truthy (JInt n) = (n \<noteq> 0)"
| "truthy (JFloat x) = (x \<noteq> 0)"
| "truthy (JStr s) = (s \<noteq> [])"
| "truthy (JArray xs) = (xs \<noteq> [])"
| "truthy (JObject kv) = (kv \<noteq> [])"

text \<open>\<^verbatim>\<open>json.loads(x)\<close>: a \<^verbatim>\<open>TypeError\<close> unless \<open>x\<close> is a str, a
  \<^verbatim>\<open>JSONDecodeError\<close> when the text is not JSON.\<close>

definition json_loads :: "pylib \<Rightarrow> json \<Rightarrow> exn + json" where
  "json_loads L x =
     (case x of
        JStr s \<Rightarrow>
          (case json_loads_str L s of
             None \<Rightarrow> Inl (JSONDecodeError ''Expecting value'')
           | Some v \<Rightarrow> Inr v)
      | _ \<Rightarrow> Inl (TypeError (''the JSON object must be str, bytes or bytearray, not ''
                               @ type_name x)))"

text \<open>
  A \<open>char\<close> is a code point below 256. \<^verbatim>\<open>s.lower()\<close> moves the capital letters of that
  range (A to Z, and 192 to 222 without the multiplication sign 215) up by 32.
\<close>

definition lower_char :: "char \<Rightarrow> char" where
  "lower_char c =
     (let n = (of_char c :: nat)
      in if (65 \<le> n \<and> n \<le> 90) \<or> (192 \<le> n \<and> n \<le> 222 \<and> n \<noteq> 215)
         then char_of (n + 32) else c)"

definition lower :: "string \<Rightarrow> string" where
  "lower s = map lower_char s"

text \<open>\<^verbatim>\<open>x.lower()\<close> on a value: an \<^verbatim>\<open>AttributeError\<close> unless \<open>x\<close> is a str.\<close>

fun py_lower :: "json \<Rightarrow> exn + string" where
  "py_lower (JStr s) = Inr (lower s)"
| "py_lower v = Inl (no_attribute v ''lower'')"

text \<open>Decimal text of an int, as \<^verbatim>\<open>str(n)\<close> and an f-string print it.\<close>

definition digit_char :: "nat \<Rightarrow> char" where
  "digit_char d = char_of (48 + d)"

fun digits :: "nat \<Rightarrow> string" where
  "digits n = (if n < 10 then [digit_char n] else digits (n div 10) @ [digit_char (n mod 10)])"

definition str_int :: "int \<Rightarrow> string" where
  "str_int n = (if n < 0 then CHR ''-'' # digits (nat (- n)) else digits (nat n))"

text \<open>\<^verbatim>\<open>str(x)\<close>, which is also what \<^verbatim>\<open>f"{x}"\<close> prints.\<close>

fun py_str :: "pylib \<Rightarrow> json \<Rightarrow> string" where
  "py_str L JNull = ''None''"
| "py_str L (JBool b) = (if b then ''True'' else ''False'')"
| "py_str L (JInt n) = str_int n"
| "py_str L (JStr s) = s"
| "py_str L v = str_other L v"

text \<open>
  \<^verbatim>\<open>int(s)\<close> on a str: surrounding whitespace is dropped (tab to carriage return, space,
  and the two spaces 133 and 160 above ASCII; not the separators 28 to 31), then an
  optional sign and decimal digits, where single underscores may stand between digits. A
  text with more than 4300 digits is refused. \<open>None\<close> is the \<^verbatim>\<open>ValueError\<close>.
\<close>

definition is_space :: "char \<Rightarrow> bool" where
  "is_space c = ((of_char c :: nat) \<in> {9, 10, 11, 12, 13, 32, 133, 160})"

definition is_digit :: "char \<Rightarrow> bool" where
  "is_digit c = (48 \<le> (of_char c :: nat) \<and> (of_char c :: nat) \<le> 57)"

definition digit_val :: "char \<Rightarrow> nat" where
  "digit_val c = of_char c - 48"

definition strip :: "string \<Rightarrow> string" where
  "strip s = rev (dropWhile is_space (rev (dropWhile is_space s)))"

fun digits_from :: "nat \<Rightarrow> string \<Rightarrow> nat option" where
  "digits_from acc [] = Some acc"
| "digits_from acc [c] = (if is_digit c then Some (10 * acc + digit_val c) else None)"
| "digits_from acc (c # d # ds) =
     (if is_digit c then digits_from (10 * acc + digit_val c) (d # ds)
      else if c = CHR ''_'' \<and> is_digit d then digits_from (10 * acc + digit_val d) ds
      else None)"

fun nat_of_digits :: "string \<Rightarrow> nat option" where
  "nat_of_digits [] = None"
| "nat_of_digits (c # cs) = (if is_digit c then digits_from (digit_val c) cs else None)"

definition int_max_str_digits :: nat where
  "int_max_str_digits = 4300"

definition int_of_str :: "string \<Rightarrow> int option" where
  "int_of_str s =
     (if int_max_str_digits < length (filter is_digit s) then None
      else case strip s of
             [] \<Rightarrow> None
           | c # cs \<Rightarrow>
               if c = CHR ''-'' then map_option (\<lambda>n. - int n) (nat_of_digits cs)
               else if c = CHR ''+'' then map_option int (nat_of_digits cs)
               else map_option int (nat_of_digits (c # cs)))"

text \<open>\<^verbatim>\<open>int(x)\<close> on a value.\<close>

fun py_int :: "json \<Rightarrow> exn + int" where
  "py_int (JInt n) = Inr n"
| "py_int (JBool b) = Inr (if b then 1 else 0)"
| "py_int (JFloat x) = Inr (if x < 0 then \<lceil>x\<rceil> else \<lfloor>x\<rfloor>)"
| "py_int (JStr s) =
     (case int_of_str s of
        None \<Rightarrow> Inl (ValueError (''invalid literal for int() with base 10: '' @ quoted s))
      | Some n \<Rightarrow> Inr n)"
| "py_int v =
     Inl (TypeError (''int() argument must be a string, a bytes-like object or a real number, not ''
                     @ type_name v))"

text \<open>A handler's reply, \<^verbatim>\<open>{"result": r, "status": st}\<close>.\<close>

definition reply :: "string \<Rightarrow> string \<Rightarrow> json" where
  "reply r st = JObject [(''result'', JStr r), (''status'', JStr st)]"

section \<open>The numberRace tool\<close>

text \<open>\<^verbatim>\<open>is_integer(value)\<close> of \<^verbatim>\<open>number_race_tool.py\<close>, called on a str.\<close>

definition is_integer :: "string \<Rightarrow> bool" where
  "is_integer s = (int_of_str s \<noteq> None)"

text \<open>
  \<^verbatim>\<open>time.sleep(n)\<close> blocks for \<open>n\<close> seconds; it raises on a negative length and on one
  beyond the C clock's range (64-bit nanoseconds).
\<close>

definition time_sleep :: "int \<Rightarrow> exn + int" where
  "time_sleep n =
     (if n < 0 then Inl (ValueError ''sleep length must be non-negative'')
      else if 2 ^ 63 \<le> n * 1000000000 then Inl (OverflowError ''timestamp too large to convert to C PyTime_t'')
      else Inr n)"

text \<open>
  The body of the \<^verbatim>\<open>try\<close> of \<^verbatim>\<open>handle_number_race\<close>: the reply, or the exception that
  leaves the body, together with the sleeps performed.
\<close>

definition number_race_body :: "pylib \<Rightarrow> json \<Rightarrow> (exn + json) \<times> int list" where
  "number_race_body L tool_use_content =
     (case py_get tool_use_content ''content'' (JStr ''{}'') of
        Inl e \<Rightarrow> (Inl e, [])
      | Inr tool_input_str \<Rightarrow>
     (case json_loads L tool_input_str of
        Inl e \<Rightarrow> (Inl e, [])
      | Inr parsed_tool_input \<Rightarrow>
     (case py_get parsed_tool_input ''number'' JNull of
        Inl e \<Rightarrow> (Inl e, [])
      | Inr number \<Rightarrow>
          if number = JNull then
            (Inr (reply ''No number was provided for the race.'' ''error''), [])
          else if is_integer (py_str L number) then
            (case py_int number of
               Inl e \<Rightarrow> (Inl e, [])
             | Inr num_val \<Rightarrow>
                 (case time_sleep num_val of
                    Inl e \<Rightarrow> (Inl e, [])
                  | Inr t \<Rightarrow>
                      (Inr (reply (''I am done waiting for '' @ str_int num_val @ '' seconds.'')
                                  ''success''), [t])))
          else
            (Inr (reply (''The input '' @ quoted (py_str L number)
                         @ '' is not a valid integer for the number race.'') ''error''), []))))"

text \<open>\<^verbatim>\<open>handle_number_race\<close>: the body under its two \<^verbatim>\<open>except\<close> clauses.\<close>

definition handle_number_race :: "pylib \<Rightarrow> json \<Rightarrow> (exn + json) \<times> int list" where
  "handle_number_race L tool_use_content =
     (case number_race_body L tool_use_content of
        (Inr r, slept) \<Rightarrow> (Inr r, slept)
      | (Inl (JSONDecodeError m), slept) \<Rightarrow>
          (Inr (reply ''Error: Invalid input format for numberRace tool.'' ''error''), slept)
      | (Inl e, slept) \<Rightarrow>
          (Inr (reply ''An unexpected error occurred in the numberRace tool.'' ''error''), slept))"

section \<open>The stream manager's state\<close>

text \<open>
  The coroutine a handler hands to \<^verbatim>\<open>launch_background_tool_task\<close>: the factory closes over
  \<^verbatim>\<open>_execute_agent_search_remotely(query, tool_use_id)\<close> or over
  \<^verbatim>\<open>_execute_image_analysis_remotely(manager, image_analysis_operation_id, query_context)\<close>.
\<close>

datatype work =
    AgentSearchWork json json
  | ImageAnalysisWork string json

record bg_task =
  task_tool_use_id :: json
  task_tool_name :: string
  task_work :: work

text \<open>
  The fields of \<^verbatim>\<open>BedrockStreamManager\<close> that the tool machinery reads and writes, under
  their names, followed by what lives outside the object: the \<^verbatim>\<open>asyncio.Event\<close> objects
  (a store from address to the set flag, since the waiting task and the table
  \<open>pending_screenshot_events\<close> share each event), the tasks that \<^verbatim>\<open>asyncio.create_task\<close>
  has scheduled and that have not finished, the chunks handed to the upstream
  \<^verbatim>\<open>input_stream.send\<close>, the blocking sleeps performed and the number of UUIDs drawn.
  \<^verbatim>\<open>asyncio.Queue()\<close> is unbounded, so \<^verbatim>\<open>put\<close> appends and never waits.
\<close>

record manager =
  is_active :: bool
  stream_response :: bool
  prompt_name :: json
  toolUseContent :: json
  toolUseId :: json
  toolName :: json
  output_queue :: "json list"
  active_background_tasks :: "json \<rightharpoonup> bg_task"
  completed_async_tool_results :: "string \<rightharpoonup> json"
  pending_screenshot_events :: "json \<rightharpoonup> nat"
  received_screenshot_data :: "json \<rightharpoonup> json"
  event_store :: "bool list"
  loop_tasks :: "bg_task list"
  sent_upstream :: "string list"
  sleep_log :: "int list"
  uuid_count :: nat

text \<open>
  Dict keys. Lists and dicts are unhashable, and Python keeps \<^verbatim>\<open>True\<close>, \<^verbatim>\<open>1\<close> and
  \<^verbatim>\<open>1.0\<close> under one key; \<open>dict_key\<close> picks the int as their representative.
\<close>

fun hashable :: "json \<Rightarrow> bool" where
  "hashable (JArray _) = False"
| "hashable (JObject _) = False"
| "hashable _ = True"

fun dict_key :: "json \<Rightarrow> json" where
  "dict_key (JBool b) = JInt (if b then 1 else 0)"
| "dict_key (JFloat x) = (if x = of_int \<lfloor>x\<rfloor> then JInt \<lfloor>x\<rfloor> else JFloat x)"
| "dict_key v = v"

text \<open>\<^verbatim>\<open>k in d\<close> on a dict.\<close>

definition py_in_dict :: "json \<Rightarrow> (json \<rightharpoonup> 'v) \<Rightarrow> exn + bool" where
  "py_in_dict k d =
     (if hashable k then Inr (dict_key k \<in> dom d)
      else Inl (TypeError (''unhashable type: '' @ quoted (type_name k))))"

section \<open>Background tasks\<close>

text \<open>
  \<^verbatim>\<open>launch_background_tool_task\<close>. The coroutine has no suspension point of its own:
  \<^verbatim>\<open>create_task\<close> only schedules \<^verbatim>\<open>task_wrapper\<close>, which starts to run at the caller's
  next await.
\<close>

definition launch_background_tool_task ::
    "json \<Rightarrow> string \<Rightarrow> work \<Rightarrow> manager \<Rightarrow> (exn + unit) \<times> manager" where
  "launch_background_tool_task tool_use_id tool_name actual_tool_coroutine_factory s =
     (case py_in_dict tool_use_id (active_background_tasks s) of
        Inl e \<Rightarrow> (Inl e, s)
      | Inr True \<Rightarrow> (Inr (), s)
      | Inr False \<Rightarrow>
          (let background_task =
                 \<lparr>task_tool_use_id = tool_use_id, task_tool_name = tool_name,
                  task_work = actual_tool_coroutine_factory\<rparr>
           in (Inr (),
               s\<lparr>loop_tasks := loop_tasks s @ [background_task],
                 active_background_tasks :=
                   (active_background_tasks s)(dict_key tool_use_id \<mapsto> background_task)\<rparr>)))"

text \<open>How the awaited tool coroutine of a background task ends.\<close>

datatype outcome =
    Returned json
  | Raised exn
  | CancelledError

definition completion_notification :: "string \<Rightarrow> json \<Rightarrow> string \<Rightarrow> string \<Rightarrow> json" where
  "completion_notification tool_name tool_use_id notification_status message =
     JObject [(''customEvent'', JStr ''toolCompletionNotification''),
              (''payload'', JObject [(''toolName'', JStr tool_name),
                                     (''toolUseId'', tool_use_id),
                                     (''status'', JStr notification_status),
                                     (''message'', JStr message)])]"

text \<open>
  \<^verbatim>\<open>task_wrapper\<close>, from the moment the awaited tool coroutine ends to the end of the
  wrapper. Nothing in between suspends, so it is one step of the event loop. The task
  leaves the loop's set of unfinished tasks (the first entry equal to it).
\<close>

definition task_wrapper :: "pylib \<Rightarrow> bg_task \<Rightarrow> outcome \<Rightarrow> manager \<Rightarrow> manager" where
  "task_wrapper L t out s =
     (let tool_name = task_tool_name t;
          tool_use_id = task_tool_use_id t;
          finished = s\<lparr>loop_tasks := remove1 t (loop_tasks s),
                       active_background_tasks :=
                         (active_background_tasks s)(dict_key tool_use_id := None)\<rparr>
      in case out of
           Returned result_payload_for_cache \<Rightarrow>
             finished
               \<lparr>completed_async_tool_results :=
                  (completed_async_tool_results s)(lower tool_name \<mapsto> result_payload_for_cache),
                output_queue := output_queue s @
                  [completion_notification tool_name tool_use_id ''success''
                     (''The '' @ tool_name @ '' operation (ID: '' @ py_str L tool_use_id
                      @ '') has completed. You can now ask for the results.'')]\<rparr>
         | CancelledError \<Rightarrow> finished
         | Raised e \<Rightarrow>
             finished
               \<lparr>output_queue := output_queue s @
                  [completion_notification tool_name tool_use_id ''error''
                     (''An error occurred in the background while processing '' @ tool_name
                      @ '' (ID: '' @ py_str L tool_use_id @ ''): '' @ exn_str e)]\<rparr>)"

section \<open>The agentSearch tool\<close>

text \<open>How the call to the remote search agent ends.\<close>

datatype a2a_outcome =
    A2AText string
  | A2AConnectionError string
  | A2AException exn
  | A2ACancelled

text \<open>\<^verbatim>\<open>_execute_agent_search_remotely\<close>, given how the remote call ends.\<close>

definition execute_agent_search_remotely :: "pylib \<Rightarrow> json \<Rightarrow> json \<Rightarrow> a2a_outcome \<Rightarrow> outcome" where
  "execute_agent_search_remotely L query tool_use_id a2a =
     (let failed = (\<lambda>msg. Returned (JObject [(''error'', JStr msg),
                                                (''originalQuery'', query),
                                                (''searchId'', tool_use_id),
                                                (''details'', JNull)]))
      in case a2a of
           A2AText final_text_from_a2a \<Rightarrow>
             Returned (JObject [(''summary'', JStr (''Agent search completed for: ''
                                                   @ quoted (py_str L query) @ ''.'')),
                                (''details'', JStr final_text_from_a2a),
                                (''originalQuery'', query),
                                (''searchId'', tool_use_id)])
         | A2AConnectionError ce \<Rightarrow>
             failed (''Could not connect to or initialize the search agent: '' @ ce)
         | A2AException e \<Rightarrow>
             failed (''An error occurred during the agent search: '' @ exn_str e)
         | A2ACancelled \<Rightarrow> CancelledError)"

text \<open>The two placeholders of \<^verbatim>\<open>handle_agent_search\<close> (lines 139 and 154).\<close>

definition search_still_working :: "pylib \<Rightarrow> string \<Rightarrow> json \<Rightarrow> string" where
  "search_still_working L raw_tool_name_from_event query =
     ''I am still working on the '' @ raw_tool_name_from_event @ '' for ''
     @ quoted (py_str L query) @ ''. I will notify you.''"

definition search_starting :: "pylib \<Rightarrow> string \<Rightarrow> json \<Rightarrow> string" where
  "search_starting L raw_tool_name_from_event query =
     ''Okay, I'm starting the '' @ raw_tool_name_from_event @ '' for ''
     @ quoted (py_str L query)
     @ ''. This may take a moment. I'll notify you in the chat when it's complete.''"

text \<open>
  The body of the \<^verbatim>\<open>try\<close> of \<^verbatim>\<open>handle_agent_search\<close>, with the tool name, the cache key
  and the invocation id already read.
\<close>

definition agent_search_body ::
    "pylib \<Rightarrow> manager \<Rightarrow> json \<Rightarrow> string \<Rightarrow> string \<Rightarrow> json \<Rightarrow> (exn + json) \<times> manager" where
  "agent_search_body L s tool_use_content raw_tool_name_from_event cache_key_to_check tool_use_id =
     (case py_get tool_use_content ''content'' (JStr ''{}'') of
        Inl e \<Rightarrow> (Inl e, s)
      | Inr tool_input_str \<Rightarrow>
     (case json_loads L tool_input_str of
        Inl e \<Rightarrow> (Inl e, s)
      | Inr parsed_tool_input \<Rightarrow>
     (case py_get parsed_tool_input ''query'' (JStr []) of
        Inl e \<Rightarrow> (Inl e, s)
      | Inr query \<Rightarrow>
          if \<not> truthy query then
            (Inr (reply (''Please provide a query for '' @ raw_tool_name_from_event @ ''.'')
                        ''error''), s)
          else
            (case completed_async_tool_results s cache_key_to_check of
               Some cached_result_data \<Rightarrow>
                 (Inr (reply (json_dumps L cached_result_data) ''success''),
                  s\<lparr>completed_async_tool_results :=
                      (completed_async_tool_results s)(cache_key_to_check := None)\<rparr>)
             | None \<Rightarrow>
                 (case py_in_dict tool_use_id (active_background_tasks s) of
                    Inl e \<Rightarrow> (Inl e, s)
                  | Inr True \<Rightarrow>
                      (Inr (reply (search_still_working L raw_tool_name_from_event query)
                                  ''success''), s)
                  | Inr False \<Rightarrow>
                      (case launch_background_tool_task tool_use_id raw_tool_name_from_event
                              (AgentSearchWork query tool_use_id) s of
                         (Inl e, s') \<Rightarrow> (Inl e, s')
                       | (Inr _, s') \<Rightarrow>
                           (Inr (reply (search_starting L raw_tool_name_from_event query)
                                       ''success''), s')))))))"

text \<open>
  \<^verbatim>\<open>handle_agent_search\<close>. The three reads before the \<^verbatim>\<open>try\<close> raise to the caller; the
  body runs under the three \<^verbatim>\<open>except\<close> clauses.
\<close>

definition handle_agent_search :: "pylib \<Rightarrow> manager \<Rightarrow> json \<Rightarrow> (exn + json) \<times> manager" where
  "handle_agent_search L s tool_use_content =
     (case py_get tool_use_content ''toolName'' (JStr ''agentSearch_fallback'') of
        Inl e \<Rightarrow> (Inl e, s)
      | Inr raw \<Rightarrow>
     (case py_lower raw of
        Inl e \<Rightarrow> (Inl e, s)
      | Inr cache_key_to_check \<Rightarrow>
     (case py_get tool_use_content ''toolUseId'' JNull of
        Inl e \<Rightarrow> (Inl e, s)
      | Inr tool_use_id \<Rightarrow>
          (let raw_tool_name_from_event = py_str L raw in
           if \<not> truthy tool_use_id then
             (Inr (reply (''Error: Missing toolUseId for '' @ raw_tool_name_from_event @ ''.'')
                         ''error''), s)
           else
             (case agent_search_body L s tool_use_content raw_tool_name_from_event
                     cache_key_to_check tool_use_id of
                (Inr r, s') \<Rightarrow> (Inr r, s')
              | (Inl (JSONDecodeError m), s') \<Rightarrow>
                  (Inr (reply (''Error: Invalid input format for '' @ raw_tool_name_from_event
                               @ '' tool.'') ''error''), s')
              | (Inl (ConnectionError ce), s') \<Rightarrow>
                  (Inr (reply (''The search agent is currently unavailable: '' @ ce) ''error''), s')
              | (Inl e, s') \<Rightarrow>
                  (Inr (reply (''An unexpected error occurred while initiating ''
                               @ raw_tool_name_from_event @ ''.'') ''error''), s'))))))"

section \<open>The imageAnalyzer tool\<close>

text \<open>
  \<^verbatim>\<open>_execute_image_analysis_remotely\<close> runs in three steps of the event loop, separated by the
  wait for the screenshot and by the call to the vision model. The function binds its
  default answer to \<^verbatim>\<open>result_for_cache\<close> and writes every failure to
  \<^verbatim>\<open>results_for_cache\<close>, a local that is bound only on success: each such write raises
  \<^verbatim>\<open>UnboundLocalError\<close>.
\<close>

definition results_for_cache_unbound :: exn where
  "results_for_cache_unbound =
     UnboundLocalError (''cannot access local variable 'results_for_cache' ''
                        @ ''where it is not associated with a value'')"

text \<open>First step: register a fresh event under the operation id and ask the client for a
  screenshot.\<close>

definition image_analysis_start :: "string \<Rightarrow> manager \<Rightarrow> manager" where
  "image_analysis_start image_analysis_id s =
     s\<lparr>event_store := event_store s @ [False],
       pending_screenshot_events :=
         (pending_screenshot_events s)(JStr image_analysis_id \<mapsto> length (event_store s)),
       output_queue := output_queue s @
         [JObject [(''customEvent'', JStr ''requestScreenshotForAnalysis''),
                   (''payload'', JObject [(''imageAnalysisId'', JStr image_analysis_id)])]]\<rparr>"

text \<open>How \<^verbatim>\<open>asyncio.wait_for(image_event.wait(), timeout=30.0)\<close> ends.\<close>

datatype wait_outcome =
    EventSet
  | WaitTimeout
  | WaitCancelled

text \<open>What the second step leaves: the task is over, or it goes on to ask the vision model
  with the image data and a prompt.\<close>

datatype image_step =
    Done outcome
  | AskLLM string string

text \<open>The \<^verbatim>\<open>finally\<close> clause after the wait (lines 92 to 96).\<close>

definition wait_cleanup :: "string \<Rightarrow> bool \<Rightarrow> manager \<Rightarrow> manager" where
  "wait_cleanup image_analysis_id image_data_url_is_None s =
     (let s1 = s\<lparr>pending_screenshot_events :=
                     (pending_screenshot_events s)(JStr image_analysis_id := None)\<rparr>
      in if JStr image_analysis_id \<in> dom (received_screenshot_data s1) \<and> image_data_url_is_None
         then s1\<lparr>received_screenshot_data :=
                    (received_screenshot_data s1)(JStr image_analysis_id := None)\<rparr>
         else s1)"

text \<open>\<^verbatim>\<open>image_data_url.split(',', 1)[1]\<close>: the text after the first comma.\<close>

definition after_first_comma :: "string \<Rightarrow> string option" where
  "after_first_comma u =
     (case dropWhile (\<lambda>c. c \<noteq> CHR '','') u of [] \<Rightarrow> None | c # rest \<Rightarrow> Some rest)"

text \<open>Step 4 up to the call of the vision model.\<close>

definition image_prepare :: "pylib \<Rightarrow> json \<Rightarrow> json \<Rightarrow> image_step" where
  "image_prepare L image_data_url query_context =
     (case image_data_url of
        JStr u \<Rightarrow>
          if \<not> prefix ''data:image'' u then Done (Raised results_for_cache_unbound)
          else (case after_first_comma u of
                  None \<Rightarrow> Done (Raised results_for_cache_unbound)
                | Some base64_image_data \<Rightarrow>
                    AskLLM base64_image_data
                      (if truthy query_context
                       then ''Describe this image. Focus on: '' @ py_str L query_context
                       else ''Describe what you see in this image in one or two sentences, ''
                            @ ''phrased as 'This image shows...'.''))
      | _ \<Rightarrow> Done (Raised results_for_cache_unbound))"

text \<open>Second step: the task resumes from the wait.\<close>

definition image_analysis_resume ::
    "pylib \<Rightarrow> string \<Rightarrow> json \<Rightarrow> wait_outcome \<Rightarrow> manager \<Rightarrow> image_step \<times> manager" where
  "image_analysis_resume L image_analysis_id query_context w s =
     (case w of
        WaitTimeout \<Rightarrow> (Done (Raised results_for_cache_unbound), wait_cleanup image_analysis_id True s)
      | WaitCancelled \<Rightarrow> (Done CancelledError, wait_cleanup image_analysis_id True s)
      | EventSet \<Rightarrow>
          (let received_data_dict =
                 (case received_screenshot_data s (JStr image_analysis_id) of None \<Rightarrow> JNull | Some d \<Rightarrow> d);
               s1 = s\<lparr>received_screenshot_data :=
                          (received_screenshot_data s)(JStr image_analysis_id := None)\<rparr>
           in if \<not> truthy received_data_dict then
                (Done (Raised results_for_cache_unbound), wait_cleanup image_analysis_id True s1)
              else
                (case py_get received_data_dict ''imageDataUrl'' JNull of
                   Inl e \<Rightarrow> (Done (Raised e), wait_cleanup image_analysis_id True s1)
                 | Inr url \<Rightarrow>
                     if truthy url then
                       (image_prepare L url query_context, wait_cleanup image_analysis_id False s1)
                     else
                       (Done (Raised results_for_cache_unbound),
                        wait_cleanup image_analysis_id True s1))))"

text \<open>How the call to the vision model ends.\<close>

datatype llm_outcome =
    Described string
  | LlmRaised exn
  | LlmCancelled

text \<open>Third step: the answer of the vision model becomes the task's result.\<close>

definition image_analysis_finish :: "string \<Rightarrow> json \<Rightarrow> llm_outcome \<Rightarrow> outcome" where
  "image_analysis_finish image_analysis_id query_context r =
     (case r of
        Described description \<Rightarrow>
          Returned (JObject [(''description'', JStr description),
                             (''originalContext'', query_context),
                             (''analysisId'', JStr image_analysis_id),
                             (''status'', JStr ''success'')])
      | LlmRaised e \<Rightarrow> Raised results_for_cache_unbound
      | LlmCancelled \<Rightarrow> CancelledError)"

text \<open>The two placeholders of \<^verbatim>\<open>handle_imageanalyzer\<close> (lines 163 and 179).\<close>

definition image_still_processing :: string where
  "image_still_processing =
     ''I am still processing a previous request to analyze an image. ''
     @ ''I will notify you when it's complete.''"

definition image_starting :: "pylib \<Rightarrow> json \<Rightarrow> string" where
  "image_starting L query_context =
     ''Okay, I'll capture and analyze the image of your current page regarding ''
     @ quoted (py_str L query_context) @ ''. I'll notify you when the description is ready.''"

text \<open>The body of the \<^verbatim>\<open>try\<close> of \<^verbatim>\<open>handle_imageanalyzer\<close>.\<close>

definition imageanalyzer_body ::
    "pylib \<Rightarrow> manager \<Rightarrow> json \<Rightarrow> string \<Rightarrow> string \<Rightarrow> json \<Rightarrow> (exn + json) \<times> manager" where
  "imageanalyzer_body L s tool_use_content raw_tool_name_from_event cache_key_to_check tool_use_id =
     (case py_get tool_use_content ''content'' (JStr ''{}'') of
        Inl e \<Rightarrow> (Inl e, s)
      | Inr tool_input_str \<Rightarrow>
     (case json_loads L tool_input_str of
        Inl e \<Rightarrow> (Inl e, s)
      | Inr parsed_tool_input \<Rightarrow>
     (case py_get parsed_tool_input ''context'' (JStr ''the current page content'') of
        Inl e \<Rightarrow> (Inl e, s)
      | Inr query_context \<Rightarrow>
          (case completed_async_tool_results s cache_key_to_check of
             Some cached_result_data \<Rightarrow>
               (Inr (reply (case cached_result_data of
                              JObject kv \<Rightarrow> json_dumps L cached_result_data
                            | _ \<Rightarrow> py_str L cached_result_data) ''success''),
                s\<lparr>completed_async_tool_results :=
                    (completed_async_tool_results s)(cache_key_to_check := None)\<rparr>)
           | None \<Rightarrow>
               (case py_in_dict tool_use_id (active_background_tasks s) of
                  Inl e \<Rightarrow> (Inl e, s)
                | Inr True \<Rightarrow>
                    (Inr (reply image_still_processing ''success''), s)
                | Inr False \<Rightarrow>
                    (let image_analysis_operation_id = uuid4_str L (uuid_count s);
                         s1 = s\<lparr>uuid_count := Suc (uuid_count s)\<rparr>
                     in case launch_background_tool_task tool_use_id raw_tool_name_from_event
                               (ImageAnalysisWork image_analysis_operation_id query_context) s1 of
                          (Inl e, s') \<Rightarrow> (Inl e, s')
                        | (Inr _, s') \<Rightarrow>
                            (Inr (reply (image_starting L query_context) ''success''), s')))))))"

text \<open>\<^verbatim>\<open>handle_imageanalyzer\<close>.\<close>

definition handle_imageanalyzer :: "pylib \<Rightarrow> manager \<Rightarrow> json \<Rightarrow> (exn + json) \<times> manager" where
  "handle_imageanalyzer L s tool_use_content =
     (case py_get tool_use_content ''toolName'' (JStr ''imageAnalyzer'') of
        Inl e \<Rightarrow> (Inl e, s)
      | Inr raw \<Rightarrow>
     (case py_lower raw of
        Inl e \<Rightarrow> (Inl e, s)
      | Inr cache_key_to_check \<Rightarrow>
     (case py_get tool_use_content ''toolUseId'' JNull of
        Inl e \<Rightarrow> (Inl e, s)
      | Inr tool_use_id \<Rightarrow>
          (let raw_tool_name_from_event = py_str L raw in
           if \<not> truthy tool_use_id then
             (Inr (reply ''Error: System error (missing toolUseId).'' ''error''), s)
           else
             (case imageanalyzer_body L s tool_use_content raw_tool_name_from_event
                     cache_key_to_check tool_use_id of
                (Inr r, s') \<Rightarrow> (Inr r, s')
              | (Inl (JSONDecodeError m), s') \<Rightarrow>
                  (Inr (reply (''Error: Invalid input format for '' @ raw_tool_name_from_event
                               @ '' tool.'') ''error''), s')
              | (Inl e, s') \<Rightarrow>
                  (Inr (reply (''An unexpected error occurred while initiating ''
                               @ raw_tool_name_from_event @ ''.'') ''error''), s'))))))"

section \<open>The getWeather tool\<close>

text \<open>The body of the \<^verbatim>\<open>try\<close> of \<^verbatim>\<open>handle_get_weather\<close>.\<close>

definition get_weather_body :: "pylib \<Rightarrow> json \<Rightarrow> exn + json" where
  "get_weather_body L tool_use_content =
     (case py_get tool_use_content ''content'' (JStr ''{}'') of
        Inl e \<Rightarrow> Inl e
      | Inr tool_input_str \<Rightarrow>
     (case json_loads L tool_input_str of
        Inl e \<Rightarrow> Inl e
      | Inr parsed_tool_input \<Rightarrow>
     (case py_get parsed_tool_input ''location'' (JStr ''an unknown place'') of
        Inl e \<Rightarrow> Inl e
      | Inr location \<Rightarrow>
          (case weather_agent L (''Get on the current weather for '' @ py_str L location) of
             Inl e \<Rightarrow> Inl e
           | Inr text \<Rightarrow> Inr (reply (re_sub_thinking L text) ''success'')))))"

text \<open>The second parse, in the \<^verbatim>\<open>except Exception\<close> clause, under its bare \<^verbatim>\<open>except\<close>.\<close>

definition location_for_error :: "pylib \<Rightarrow> json \<Rightarrow> json" where
  "location_for_error L tool_use_content =
     (case py_get tool_use_content ''content'' (JStr ''{}'') of
        Inl e \<Rightarrow> JStr ''the specified location''
      | Inr tool_input_str_err \<Rightarrow>
     (case json_loads L tool_input_str_err of
        Inl e \<Rightarrow> JStr ''the specified location''
      | Inr parsed_tool_input_err \<Rightarrow>
     (case py_get parsed_tool_input_err ''location'' (JStr ''the specified location'') of
        Inl e \<Rightarrow> JStr ''the specified location''
      | Inr l \<Rightarrow> l)))"

definition handle_get_weather :: "pylib \<Rightarrow> json \<Rightarrow> exn + json" where
  "handle_get_weather L tool_use_content =
     (case get_weather_body L tool_use_content of
        Inr r \<Rightarrow> Inr r
      | Inl (JSONDecodeError m) \<Rightarrow>
          Inr (reply ''Error: Invalid input format for getWeather tool.'' ''error'')
      | Inl e \<Rightarrow>
          Inr (reply (''Error getting weather for ''
                      @ py_str L (location_for_error L tool_use_content) @ ''.'') ''error''))"

section \<open>Tool dispatch\<close>

text \<open>
  A registered handler is called with the manager and the tool-use content, or with the
  tool-use content alone. A handler of the second kind has no access to the manager; what
  it leaves behind is its blocking sleeps.
\<close>

datatype handler =
    WithManager "pylib \<Rightarrow> manager \<Rightarrow> json \<Rightarrow> (exn + json) \<times> manager"
  | ContentOnly "pylib \<Rightarrow> json \<Rightarrow> (exn + json) \<times> int list"

text \<open>\<^verbatim>\<open>self.tool_handlers\<close> as \<^verbatim>\<open>__init__\<close> fills it.\<close>

definition tool_handlers :: "string \<rightharpoonup> handler" where
  "tool_handlers =
     [''getweather'' \<mapsto> ContentOnly (\<lambda>L c. (handle_get_weather L c, [])),
      ''numberrace'' \<mapsto> ContentOnly handle_number_race,
      ''agentsearch'' \<mapsto> WithManager handle_agent_search,
      ''imageanalyzer'' \<mapsto> WithManager handle_imageanalyzer]"

text \<open>
  The call inside the \<^verbatim>\<open>try\<close> of \<^verbatim>\<open>processToolUse\<close>: \<^verbatim>\<open>handler(self, toolUseContent)\<close> for
  the two keys listed there, \<^verbatim>\<open>handler(toolUseContent)\<close> otherwise. A handler called with the
  wrong number of arguments raises \<^verbatim>\<open>TypeError\<close>.
\<close>

definition call_handler :: "pylib \<Rightarrow> string \<Rightarrow> handler \<Rightarrow> manager \<Rightarrow> json \<Rightarrow> (exn + json) \<times> manager" where
  "call_handler L tool_key h s tool_use_content =
     (if tool_key \<in> {''agentsearch'', ''imageanalyzer''} then
        (case h of
           WithManager f \<Rightarrow> f L s tool_use_content
         | ContentOnly g \<Rightarrow>
             (Inl (TypeError ''handler takes 1 positional argument but 2 were given''), s))
      else
        (case h of
           ContentOnly g \<Rightarrow>
             (case g L tool_use_content of
                (r, slept) \<Rightarrow> (r, s\<lparr>sleep_log := sleep_log s @ slept\<rparr>))
         | WithManager f \<Rightarrow>
             (Inl (TypeError ''handler missing 1 required positional argument''), s)))"

text \<open>
  \<^verbatim>\<open>processToolUse\<close>, over the registry \<open>H\<close> held in \<^verbatim>\<open>self.tool_handlers\<close>.
  \<^verbatim>\<open>toolName.lower()\<close> stands before the \<^verbatim>\<open>try\<close>. (The parameters \<^verbatim>\<open>toolName\<close> and
  \<^verbatim>\<open>toolUseContent\<close> are \<open>tool_name\<close> and \<open>tool_use_content\<close> here; the manager's fields
  keep the names.)
\<close>

definition processToolUse ::
    "(string \<rightharpoonup> handler) \<Rightarrow> pylib \<Rightarrow> manager \<Rightarrow> json \<Rightarrow> json \<Rightarrow> (exn + json) \<times> manager" where
  "processToolUse H L s tool_name tool_use_content =
     (case py_lower tool_name of
        Inl e \<Rightarrow> (Inl e, s)
      | Inr tool_key \<Rightarrow>
          (case H tool_key of
             Some h \<Rightarrow>
               (case call_handler L tool_key h s tool_use_content of
                  (Inr result_payload, s') \<Rightarrow> (Inr result_payload, s')
                | (Inl e, s') \<Rightarrow>
                    (Inr (reply (''An unexpected error occurred while executing tool ''
                                 @ py_str L tool_name @ ''.'') ''error''), s'))
           | None \<Rightarrow>
               (Inr (reply (''Tool '' @ py_str L tool_name
                            @ '' is not implemented or recognized by the backend.'') ''error''), s)))"

section \<open>The response loop\<close>

text \<open>\<^verbatim>\<open>"k" in v\<close> and \<^verbatim>\<open>v["k"]\<close> on a decoded value.\<close>

fun py_contains :: "string \<Rightarrow> json \<Rightarrow> exn + bool" where
  "py_contains k (JObject kv) = Inr (map_of kv k \<noteq> None)"
| "py_contains k (JArray xs) = Inr (JStr k \<in> set xs)"
| "py_contains k (JStr t) = Inr (sublist k t)"
| "py_contains k v =
     Inl (TypeError (''argument of type '' @ quoted (type_name v) @ '' is not iterable''))"

fun py_getitem :: "json \<Rightarrow> string \<Rightarrow> exn + json" where
  "py_getitem (JObject kv) k = (case map_of kv k of None \<Rightarrow> Inl (KeyError k) | Some v \<Rightarrow> Inr v)"
| "py_getitem (JArray xs) k = Inl (TypeError ''list indices must be integers or slices, not str'')"
| "py_getitem (JStr t) k = Inl (TypeError (''string indices must be integers, not '' @ quoted ''str''))"
| "py_getitem v k = Inl (TypeError (quoted (type_name v) @ '' object is not subscriptable''))"

text \<open>
  \<^verbatim>\<open>send_raw_event\<close> on an already serialized event, as the response loop calls it. A failure
  of the upstream send is caught and logged there; \<open>sent_upstream\<close> records the chunks
  handed to the stream.
\<close>

definition send_raw_event :: "string \<Rightarrow> manager \<Rightarrow> manager" where
  "send_raw_event event_json s =
     (if \<not> stream_response s \<or> \<not> is_active s then s
      else s\<lparr>sent_upstream := sent_upstream s @ [event_json]\<rparr>)"

definition tool_start_event :: "manager \<Rightarrow> string \<Rightarrow> json" where
  "tool_start_event s toolContent =
     JObject [(''event'', JObject [(''contentStart'', JObject
       [(''interactive'', JBool True),
        (''promptName'', prompt_name s),
        (''contentName'', JStr toolContent),
        (''type'', JStr ''TOOL''),
        (''role'', JStr ''TOOL''),
        (''toolResultInputConfiguration'', JObject
           [(''toolUseId'', toolUseId s),
            (''type'', JStr ''TEXT''),
            (''textInputConfiguration'', JObject [(''mediaType'', JStr ''text/plain'')])])])])]"

text \<open>
  The \<^verbatim>\<open>toolResult\<close> event built from what \<^verbatim>\<open>processToolUse\<close> returned (lines 406 to 435):
  the serialized payload and the normalized status.
\<close>

definition tool_result_event :: "pylib \<Rightarrow> manager \<Rightarrow> string \<Rightarrow> json \<Rightarrow> exn + json" where
  "tool_result_event L s toolContent toolResult =
     (let content_json_string =
            (case toolResult of
               JObject kv \<Rightarrow> json_dumps L toolResult
             | _ \<Rightarrow> py_str L toolResult)
      in case py_get toolResult ''status'' JNull of
           Inl e \<Rightarrow> Inl e
         | Inr st \<Rightarrow>
             (let status = (if st = JStr ''error'' then ''error'' else ''success'')
              in Inr (JObject [(''event'', JObject [(''toolResult'', JObject
                        [(''promptName'', prompt_name s),
                         (''contentName'', JStr toolContent),
                         (''content'', JStr content_json_string),
                         (''status'', JStr status)])])])))"

definition tool_content_end_event :: "manager \<Rightarrow> string \<Rightarrow> json" where
  "tool_content_end_event s toolContent =
     JObject [(''event'', JObject [(''contentEnd'', JObject
       [(''promptName'', prompt_name s), (''contentName'', JStr toolContent)])])]"

text \<open>
  The branch for a \<^verbatim>\<open>contentEnd\<close> of type \<^verbatim>\<open>TOOL\<close>: dispatch, then the three upstream
  events. The result is the exception that leaves the branch, if any, and the state at
  that point. (The awaits inside are taken in one step.)
\<close>

definition tool_use_cycle :: "(string \<rightharpoonup> handler) \<Rightarrow> pylib \<Rightarrow> manager \<Rightarrow> exn option \<times> manager" where
  "tool_use_cycle H L s =
     (case processToolUse H L s (toolName s) (toolUseContent s) of
        (Inl e, s1) \<Rightarrow> (Some e, s1)
      | (Inr toolResult, s1) \<Rightarrow>
          (let toolContent = uuid4_str L (uuid_count s1);
               s2 = s1\<lparr>uuid_count := Suc (uuid_count s1)\<rparr>;
               s3 = send_raw_event (json_dumps L (tool_start_event s2 toolContent)) s2
           in case tool_result_event L s3 toolContent toolResult of
                Inl e \<Rightarrow> (Some e, s3)
              | Inr result_event \<Rightarrow>
                  (let s4 = send_raw_event (json_dumps L result_event) s3;
                       s5 = send_raw_event (json_dumps L (tool_content_end_event s4 toolContent)) s4
                   in (None, s5))))"

text \<open>The \<^verbatim>\<open>contentStart\<close> branch: it only looks for the speculative marker.\<close>

definition content_start_branch :: "pylib \<Rightarrow> json \<Rightarrow> exn option" where
  "content_start_branch L event_data =
     (case py_getitem event_data ''contentStart'' of
        Inl e \<Rightarrow> Some e
      | Inr content_start \<Rightarrow>
     (case py_contains ''additionalModelFields'' content_start of
        Inl e \<Rightarrow> Some e
      | Inr False \<Rightarrow> None
      | Inr True \<Rightarrow>
     (case py_getitem content_start ''additionalModelFields'' of
        Inl e \<Rightarrow> Some e
      | Inr model_fields \<Rightarrow>
     (case json_loads L model_fields of
        Inl (JSONDecodeError m) \<Rightarrow> None
      | Inl e \<Rightarrow> Some e
      | Inr additional_fields \<Rightarrow>
     (case py_get additional_fields ''generationStage'' JNull of
        Inl e \<Rightarrow> Some e
      | Inr stage \<Rightarrow> None)))))"

text \<open>The \<^verbatim>\<open>textOutput\<close> branch: it reads the content and the role.\<close>

definition text_output_branch :: "json \<Rightarrow> exn option" where
  "text_output_branch event_data =
     (case py_getitem event_data ''textOutput'' of
        Inl e \<Rightarrow> Some e
      | Inr text_output \<Rightarrow>
     (case py_getitem text_output ''content'' of
        Inl e \<Rightarrow> Some e
      | Inr text_content \<Rightarrow>
     (case py_getitem text_output ''role'' of
        Inl e \<Rightarrow> Some e
      | Inr role \<Rightarrow> None)))"

text \<open>The \<^verbatim>\<open>toolUse\<close> branch: three assignments, each kept when a later read raises.\<close>

definition tool_use_branch :: "json \<Rightarrow> manager \<Rightarrow> exn option \<times> manager" where
  "tool_use_branch event_data s =
     (case py_getitem event_data ''toolUse'' of
        Inl e \<Rightarrow> (Some e, s)
      | Inr tool_use \<Rightarrow>
          (let s1 = s\<lparr>toolUseContent := tool_use\<rparr>
           in case py_getitem tool_use ''toolName'' of
                Inl e \<Rightarrow> (Some e, s1)
              | Inr n \<Rightarrow>
                  (let s2 = s1\<lparr>toolName := n\<rparr>
                   in case py_getitem tool_use ''toolUseId'' of
                        Inl e \<Rightarrow> (Some e, s2)
                      | Inr i \<Rightarrow> (None, s2\<lparr>toolUseId := i\<rparr>))))"

text \<open>The last \<^verbatim>\<open>elif\<close>: a \<^verbatim>\<open>contentEnd\<close> whose type is \<^verbatim>\<open>TOOL\<close>.\<close>

definition content_end_branch ::
    "(string \<rightharpoonup> handler) \<Rightarrow> pylib \<Rightarrow> json \<Rightarrow> manager \<Rightarrow> exn option \<times> manager" where
  "content_end_branch H L event_data s =
     (case py_get event_data ''contentEnd'' (JObject []) of
        Inl e \<Rightarrow> (Some e, s)
      | Inr content_end \<Rightarrow>
     (case py_get content_end ''type'' JNull of
        Inl e \<Rightarrow> (Some e, s)
      | Inr ty \<Rightarrow> if ty = JStr ''TOOL'' then tool_use_cycle H L s else (None, s)))"

text \<open>The \<^verbatim>\<open>if\<close>/\<^verbatim>\<open>elif\<close> chain over the keys of \<^verbatim>\<open>event_data\<close>.\<close>

definition handle_event ::
    "(string \<rightharpoonup> handler) \<Rightarrow> pylib \<Rightarrow> json \<Rightarrow> manager \<Rightarrow> exn option \<times> manager" where
  "handle_event H L event_data s =
     (case py_contains ''contentStart'' event_data of
        Inl e \<Rightarrow> (Some e, s)
      | Inr True \<Rightarrow> (content_start_branch L event_data, s)
      | Inr False \<Rightarrow>
     (case py_contains ''textOutput'' event_data of
        Inl e \<Rightarrow> (Some e, s)
      | Inr True \<Rightarrow> (text_output_branch event_data, s)
      | Inr False \<Rightarrow>
     (case py_contains ''toolUse'' event_data of
        Inl e \<Rightarrow> (Some e, s)
      | Inr True \<Rightarrow> tool_use_branch event_data s
      | Inr False \<Rightarrow>
     (case py_contains ''contentEnd'' event_data of
        Inl e \<Rightarrow> (Some e, s)
      | Inr True \<Rightarrow> content_end_branch H L event_data s
      | Inr False \<Rightarrow> (None, s)))))"

text \<open>
  One decoded chunk (lines 307 to 460): parse, handle the event, forward the parsed value
  to the client. Text that is not JSON is forwarded as an error object.
\<close>

definition handle_response_data ::
    "(string \<rightharpoonup> handler) \<Rightarrow> pylib \<Rightarrow> string \<Rightarrow> manager \<Rightarrow> exn option \<times> manager" where
  "handle_response_data H L response_data s =
     (case json_loads_str L response_data of
        None \<Rightarrow>
          (None, s\<lparr>output_queue := output_queue s @
                     [JObject [(''raw_data'', JStr response_data),
                               (''error'', JStr ''JSONDecodeError'')]]\<rparr>)
      | Some json_data \<Rightarrow>
          (case py_contains ''event'' json_data of
             Inl e \<Rightarrow> (Some e, s)
           | Inr False \<Rightarrow> (None, s\<lparr>output_queue := output_queue s @ [json_data]\<rparr>)
           | Inr True \<Rightarrow>
               (case py_getitem json_data ''event'' of
                  Inl e \<Rightarrow> (Some e, s)
                | Inr event_data \<Rightarrow>
                    (case handle_event H L event_data s of
                       (Some e, s') \<Rightarrow> (Some e, s')
                     | (None, s') \<Rightarrow>
                         (None, s'\<lparr>output_queue := output_queue s' @ [json_data]\<rparr>)))))"

text \<open>The classification of a receive error (lines 472 to 492).\<close>

definition is_fatal_bedrock_error :: "string \<Rightarrow> bool" where
  "is_fatal_bedrock_error error_message_str =
     (sublist ''Invalid voice ID'' error_message_str
      \<or> sublist ''ValidationException'' error_message_str
      \<or> sublist ''Error(s):'' error_message_str)"

text \<open>\<^verbatim>\<open>s.splitlines()[0]\<close> of a text that is not empty.\<close>

definition is_line_break :: "char \<Rightarrow> bool" where
  "is_line_break c = ((of_char c :: nat) \<in> {10, 11, 12, 13, 28, 29, 30, 133})"

definition first_line :: "string \<Rightarrow> string" where
  "first_line s = takeWhile (\<lambda>c. \<not> is_line_break c) s"

definition fatal_error_payload :: "string \<Rightarrow> json" where
  "fatal_error_payload error_message_str =
     JObject [(''event'', JObject [(''error'', JObject
       [(''type'', JStr ''BedrockStreamError''),
        (''message'', JStr (first_line error_message_str)),
        (''fatal'', JBool True)])])]"

text \<open>The \<^verbatim>\<open>except Exception\<close> clause of the loop.\<close>

definition on_receive_error :: "exn \<Rightarrow> manager \<Rightarrow> manager" where
  "on_receive_error e s =
     (let error_message_str = exn_str e;
          s1 = (if is_fatal_bedrock_error error_message_str
                then s\<lparr>output_queue := output_queue s @ [fatal_error_payload error_message_str]\<rparr>
                else s)
      in s1\<lparr>is_active := False\<rparr>)"

text \<open>
  What one turn of the loop receives from the upstream stream: \<^verbatim>\<open>await_output\<close> gives
  nothing, the stream ends, the task is cancelled, the receive raises, the result has no
  value, the result has a value without bytes, or the result carries text.
\<close>

datatype recv =
    NoOutputEvent
  | StopAsyncIteration
  | Cancelled
  | RecvRaises exn
  | ValueNone
  | NoBytes
  | Bytes string

text \<open>How the coroutine \<^verbatim>\<open>_process_responses\<close> ends: it returns, or the cancellation is
  raised again.\<close>

datatype loop_end =
    LoopReturned
  | LoopCancelled

text \<open>
  The \<^verbatim>\<open>while self.is_active\<close> loop over what the stream delivers. \<open>None\<close> says that the
  loop has used up what was delivered and awaits the next output.
\<close>

fun response_loop ::
    "(string \<rightharpoonup> handler) \<Rightarrow> pylib \<Rightarrow> recv list \<Rightarrow> manager \<Rightarrow> loop_end option \<times> manager" where
  "response_loop H L [] s = (if is_active s then (None, s) else (Some LoopReturned, s))"
| "response_loop H L (r # rs) s =
     (if \<not> is_active s then (Some LoopReturned, s)
      else case r of
             NoOutputEvent \<Rightarrow> (Some LoopReturned, s)
           | StopAsyncIteration \<Rightarrow> (Some LoopReturned, s)
           | Cancelled \<Rightarrow> (Some LoopCancelled, s\<lparr>is_active := False\<rparr>)
           | RecvRaises e \<Rightarrow> (Some LoopReturned, on_receive_error e s)
           | ValueNone \<Rightarrow> (Some LoopReturned, s)
           | NoBytes \<Rightarrow> response_loop H L rs s
           | Bytes response_data \<Rightarrow>
               if response_data = [] then response_loop H L rs s
               else (case handle_response_data H L response_data s of
                       (Some e, s') \<Rightarrow> (Some LoopReturned, on_receive_error e s')
                     | (None, s') \<Rightarrow> response_loop H L rs s'))"

text \<open>\<^verbatim>\<open>_process_responses\<close>: the loop under its \<^verbatim>\<open>finally\<close> clause.\<close>

definition process_responses ::
    "(string \<rightharpoonup> handler) \<Rightarrow> pylib \<Rightarrow> recv list \<Rightarrow> manager \<Rightarrow> loop_end option \<times> manager" where
  "process_responses H L rs s =
     (case response_loop H L rs s of
        (None, s') \<Rightarrow> (None, s')
      | (Some ending, s') \<Rightarrow>
          (Some ending, s'\<lparr>is_active := False, output_queue := output_queue s' @ [JNull]\<rparr>))"

section \<open>The forwarder\<close>






section \<open>The screenshot rendezvous\<close>

text \<open>
  \<^verbatim>\<open>deliver_screenshot_data\<close>. \<^verbatim>\<open>event_to_set.set()\<close> sets the flag of the event stored under
  the id.
\<close>

definition deliver_screenshot_data ::
    "json \<Rightarrow> json \<Rightarrow> json \<Rightarrow> manager \<Rightarrow> (exn + unit) \<times> manager" where
  "deliver_screenshot_data analysis_id image_data_url error_message s =
     (case py_in_dict analysis_id (pending_screenshot_events s) of
        Inl e \<Rightarrow> (Inl e, s)
      | Inr False \<Rightarrow> (Inr (), s)
      | Inr True \<Rightarrow>
          (let data =
                 (if truthy error_message then JObject [(''error'', error_message)]
                  else if truthy image_data_url then JObject [(''imageDataUrl'', image_data_url)]
                  else JObject [(''error'', JStr ''No image data and no error message provided.'')]);
               event_to_set = the (pending_screenshot_events s (dict_key analysis_id))
           in (Inr (),
               s\<lparr>received_screenshot_data :=
                   (received_screenshot_data s)(dict_key analysis_id \<mapsto> data),
                 event_store := (event_store s)[event_to_set := True]\<rparr>)))"

section \<open>A concrete library for worked examples\<close>

text \<open>A \<^verbatim>\<open>json.loads\<close> that knows the texts used in the examples below.\<close>

definition sample_loads :: "string \<Rightarrow> json option" where
  \<open>sample_loads t =
     (if t = ''{"number": 3}'' then Some (JObject [(''number'', JInt 3)])
      else if t = ''{"number": "abc"}'' then Some (JObject [(''number'', JStr ''abc'')])
      else if t = ''{"query": "X"}'' then Some (JObject [(''query'', JStr ''X'')])
      else if t = ''{"query": ""}'' then Some (JObject [(''query'', JStr [])])
      else if t = ''{}'' then Some (JObject [])
      else None)\<close>

text \<open>A \<^verbatim>\<open>json.dumps\<close> for values built from \<^verbatim>\<open>None\<close>, bools, ints, plain strings, lists and
  dicts.\<close>

fun join :: "string \<Rightarrow> string list \<Rightarrow> string" where
  "join sep [] = []"
| "join sep [x] = x"
| "join sep (x # y # ys) = x @ sep @ join sep (y # ys)"

fun sample_dumps :: "json \<Rightarrow> string" where
  "sample_dumps JNull = ''null''"
| "sample_dumps (JBool b) = (if b then ''true'' else ''false'')"
| "sample_dumps (JInt n) = str_int n"
| "sample_dumps (JFloat x) = ''0.0''"
| "sample_dumps (JStr s) = [CHR 0x22] @ s @ [CHR 0x22]"
| "sample_dumps (JArray xs) = ''['' @ join '', '' (map sample_dumps xs) @ '']''"
| "sample_dumps (JObject kv) =
     ''{'' @ join '', '' (map (\<lambda>p. [CHR 0x22] @ fst p @ [CHR 0x22] @ '': '' @ sample_dumps (snd p)) kv)
     @ ''}''"

definition sample_lib :: pylib where
  "sample_lib =
     \<lparr>json_loads_str = sample_loads,
      json_dumps = sample_dumps,
      str_other = sample_dumps,
      weather_agent = (\<lambda>prompt. Inr ''Sunny.''),
      re_sub_thinking = (\<lambda>t. t),
      uuid4_str = (\<lambda>n. ''uuid-'' @ str_int (int n))\<rparr>"

text \<open>The manager as \<^verbatim>\<open>__init__\<close> leaves it.\<close>

definition manager_init :: manager where
  "manager_init =
     \<lparr>is_active = False,
      stream_response = False,
      prompt_name = JNull,
      toolUseContent = JStr [],
      toolUseId = JStr [],
      toolName = JStr [],
      output_queue = [],
      active_background_tasks = Map.empty,
      completed_async_tool_results = Map.empty,
      pending_screenshot_events = Map.empty,
      received_screenshot_data = Map.empty,
      event_store = [],
      loop_tasks = [],
      sent_upstream = [],
      sleep_log = [],
      uuid_count = 0\<rparr>"

text \<open>
  The content of a \<^verbatim>\<open>toolUse\<close> event as the upstream protocol sends it: the tool name, the
  invocation id and the tool input as JSON text.
\<close>

definition tool_use :: "string \<Rightarrow> json \<Rightarrow> string \<Rightarrow> json" where
  "tool_use n i c = JObject [(''toolName'', JStr n), (''toolUseId'', i), (''content'', JStr c)]"

text \<open>A session in which the results of a finished search and of a finished image analysis
  are cached.\<close>

definition search_result_X :: json where
  "search_result_X =
     JObject [(''summary'', JStr ''Agent search completed for: 'X'.''),
              (''details'', JStr ''found''),
              (''originalQuery'', JStr ''X''),
              (''searchId'', JStr ''t1'')]"

definition image_result_1 :: json where
  "image_result_1 =
     JObject [(''description'', JStr ''A page.''),
              (''originalContext'', JStr ''the current page content''),
              (''analysisId'', JStr ''uuid-0''),
              (''status'', JStr ''success'')]"

definition manager_cached :: manager where
  "manager_cached =
     manager_init\<lparr>is_active := True, stream_response := True,
       completed_async_tool_results :=
         [''agentsearch'' \<mapsto> search_result_X, ''imageanalyzer'' \<mapsto> image_result_1]\<rparr>"

definition manager_live :: manager where
  "manager_live = manager_init\<lparr>is_active := True, stream_response := True\<rparr>"

section \<open>Evaluation lemmas\<close>

lemma str_int_3: "str_int 3 = ''3''"
  by code_simp

lemma int_of_str_3: "int_of_str ''3'' = Some 3"
  by code_simp

lemma int_of_str_abc: "int_of_str ''abc'' = None"
  by code_simp

lemma sample_loads_3:
  \<open>json_loads_str sample_lib ''{"number": 3}'' = Some (JObject [(''number'', JInt 3)])\<close>
  by (simp add: sample_lib_def sample_loads_def)

lemma sample_loads_abc:
  \<open>json_loads_str sample_lib ''{"number": "abc"}'' = Some (JObject [(''number'', JStr ''abc'')])\<close>
  by (simp add: sample_lib_def sample_loads_def)

section \<open>The numberRace scenarios\<close>

text \<open>
  Claim C8. When the content of the tool use parses to \<^verbatim>\<open>{"number": 3}\<close>, the numberRace
  handler performs one blocking sleep of 3 seconds and returns
  \<^verbatim>\<open>{"result": "I am done waiting for 3 seconds.", "status": "success"}\<close>. When it parses to
  \<^verbatim>\<open>{"number": "abc"}\<close>, the handler returns a reply with status \<^verbatim>\<open>error\<close> and performs no
  sleep.
\<close>

theorem number_race_scenarios:
  assumes "json_loads_str L c3 = Some (JObject [(''number'', JInt 3)])"
      and "json_loads_str L cabc = Some (JObject [(''number'', JStr ''abc'')])"
  shows "handle_number_race L (JObject [(''content'', JStr c3)])
           = (Inr (reply ''I am done waiting for 3 seconds.'' ''success''), [3])
       \<and> handle_number_race L (JObject [(''content'', JStr cabc)])
           = (Inr (reply ''The input 'abc' is not a valid integer for the number race.''
                         ''error''), [])"
  using assms
  by (simp add: handle_number_race_def number_race_body_def json_loads_def is_integer_def
        str_int_3 int_of_str_3 int_of_str_abc time_sleep_def quoted_def)

theorem number_race_scenarios_witness:
  \<open>handle_number_race sample_lib (JObject [(''content'', JStr ''{"number": 3}'')])
     = (Inr (reply ''I am done waiting for 3 seconds.'' ''success''), [3])
   \<and> handle_number_race sample_lib (JObject [(''content'', JStr ''{"number": "abc"}'')])
     = (Inr (reply ''The input 'abc' is not a valid integer for the number race.''
                   ''error''), [])\<close>
  by (rule number_race_scenarios [OF sample_loads_3 sample_loads_abc])

section \<open>Dispatch\<close>

lemma lower_getTime: "lower ''getTime'' = ''gettime''"
  by code_simp

lemma lower_agentSearch: "lower ''agentSearch'' = ''agentsearch''"
  by code_simp

text \<open>
  Claim C4. For every tool name (a string) whose lower-cased form is not a key of the
  handler registry, \<^verbatim>\<open>processToolUse\<close> returns the reply
  \<^verbatim>\<open>{"result": "Tool <name> is not implemented or recognized by the backend.", "status": "error"}\<close>,
  raises nothing and leaves the manager as it was.
\<close>

theorem unknown_tool_is_error:
  assumes "H (lower n) = None"
  shows "processToolUse H L s (JStr n) c
           = (Inr (reply (''Tool '' @ n @ '' is not implemented or recognized by the backend.'')
                         ''error''), s)"
  using assms by (simp add: processToolUse_def)

theorem unknown_tool_is_error_witness:
  "processToolUse tool_handlers sample_lib manager_init (JStr ''getTime'') (JObject [])
     = (Inr (reply ''Tool getTime is not implemented or recognized by the backend.'' ''error''),
        manager_init)"
proof -
  have "tool_handlers (lower ''getTime'') = None"
    by (simp add: lower_getTime tool_handlers_def)
  from unknown_tool_is_error [where H = tool_handlers and n = "''getTime''", OF this]
  show ?thesis by simp
qed

text \<open>
  Claim C5. When the handler registered for a tool raises an exception, \<^verbatim>\<open>processToolUse\<close>
  returns the reply
  \<^verbatim>\<open>{"result": "An unexpected error occurred while executing tool <name>.", "status": "error"}\<close>
  with the state the handler left; and whatever the registry, the content and the state,
  \<^verbatim>\<open>processToolUse\<close> called with a tool name that is a string returns a payload and never
  an exception.
\<close>

theorem handler_exception_is_caught:
  assumes "H (lower n) = Some h"
      and "call_handler L (lower n) h s c = (Inl e, s')"
  shows "processToolUse H L s (JStr n) c
           = (Inr (reply (''An unexpected error occurred while executing tool '' @ n @ ''.'')
                         ''error''), s')
         \<and> (\<forall>H' s2 c2. \<exists>r s3. processToolUse H' L s2 (JStr n) c2 = (Inr r, s3))"
proof
  show "processToolUse H L s (JStr n) c
          = (Inr (reply (''An unexpected error occurred while executing tool '' @ n @ ''.'')
                        ''error''), s')"
    using assms by (simp add: processToolUse_def)
next
  show "\<forall>H' s2 c2. \<exists>r s3. processToolUse H' L s2 (JStr n) c2 = (Inr r, s3)"
  proof (intro allI)
    fix H' s2 c2
    show "\<exists>r s3. processToolUse H' L s2 (JStr n) c2 = (Inr r, s3)"
    proof (cases "H' (lower n)")
      case None
      then show ?thesis by (simp add: processToolUse_def)
    next
      case (Some h')
      obtain r0 s0 where call: "call_handler L (lower n) h' s2 c2 = (r0, s0)"
        by (cases "call_handler L (lower n) h' s2 c2")
      show ?thesis
        using Some call by (cases r0) (simp_all add: processToolUse_def)
    qed
  qed
qed

theorem handler_exception_is_caught_witness:
  "processToolUse tool_handlers sample_lib manager_init (JStr ''agentSearch'') (JStr [])
     = (Inr (reply ''An unexpected error occurred while executing tool agentSearch.'' ''error''),
        manager_init)"
proof -
  have h: "tool_handlers (lower ''agentSearch'') = Some (WithManager handle_agent_search)"
    by (simp add: lower_agentSearch tool_handlers_def)
  have c: "call_handler sample_lib (lower ''agentSearch'') (WithManager handle_agent_search)
             manager_init (JStr [])
           = (Inl (no_attribute (JStr []) ''get''), manager_init)"
    by (simp add: lower_agentSearch call_handler_def handle_agent_search_def)
  from handler_exception_is_caught [where H = tool_handlers and n = "''agentSearch''", OF h c]
  show ?thesis by simp
qed

section \<open>The status of the tool result event\<close>

text \<open>
  Claim C9. The \<^verbatim>\<open>toolResult\<close> event built from a payload (a dict) carries the status
  \<^verbatim>\<open>error\<close> when the payload's \<^verbatim>\<open>status\<close> entry is the string \<^verbatim>\<open>error\<close>, and the status
  \<^verbatim>\<open>success\<close> for every other value of the entry and for a payload without one.
\<close>

theorem tool_result_status_normalized:
  "tool_result_event L s toolContent (JObject kv)
     = Inr (JObject [(''event'', JObject [(''toolResult'', JObject
              [(''promptName'', prompt_name s),
               (''contentName'', JStr toolContent),
               (''content'', JStr (json_dumps L (JObject kv))),
               (''status'', JStr (if map_of kv ''status'' = Some (JStr ''error'')
                                  then ''error'' else ''success''))])])])"
  by (simp add: tool_result_event_def split: option.splits)

theorem tool_result_status_normalized_witness:
  "tool_result_event sample_lib manager_init ''c-1'' (JObject [(''status'', JStr ''error'')])
     = Inr (JObject [(''event'', JObject [(''toolResult'', JObject
              [(''promptName'', JNull),
               (''contentName'', JStr ''c-1''),
               (''content'', JStr (json_dumps sample_lib (JObject [(''status'', JStr ''error'')]))),
               (''status'', JStr ''error'')])])])
   \<and> tool_result_event sample_lib manager_init ''c-2'' (JObject [(''status'', JInt 7)])
     = Inr (JObject [(''event'', JObject [(''toolResult'', JObject
              [(''promptName'', JNull),
               (''contentName'', JStr ''c-2''),
               (''content'', JStr (json_dumps sample_lib (JObject [(''status'', JInt 7)]))),
               (''status'', JStr ''success'')])])])
   \<and> tool_result_event sample_lib manager_init ''c-3'' (JObject [(''result'', JStr ''ok'')])
     = Inr (JObject [(''event'', JObject [(''toolResult'', JObject
              [(''promptName'', JNull),
               (''contentName'', JStr ''c-3''),
               (''content'', JStr (json_dumps sample_lib (JObject [(''result'', JStr ''ok'')]))),
               (''status'', JStr ''success'')])])])"
  using tool_result_status_normalized [of sample_lib manager_init "''c-1''"
          "[(''status'', JStr ''error'')]"]
        tool_result_status_normalized [of sample_lib manager_init "''c-2''"
          "[(''status'', JInt 7)]"]
        tool_result_status_normalized [of sample_lib manager_init "''c-3''"
          "[(''result'', JStr ''ok'')]"]
  by (simp add: manager_init_def)

section \<open>Receive errors in the response loop\<close>

lemma response_loop_awaiting_active:
  "response_loop H L pre s = (None, s1) \<Longrightarrow> is_active s1"
  by (induction pre arbitrary: s)
     (auto split: if_splits recv.splits prod.splits option.splits)

lemma response_loop_append:
  "response_loop H L pre s = (None, s1) \<Longrightarrow>
   response_loop H L (pre @ rs) s = response_loop H L rs s1"
proof (induction pre arbitrary: s)
  case Nil
  then show ?case by (cases rs) (auto split: if_splits)
next
  case (Cons r pre)
  then show ?case
    by (cases r) (auto split: if_splits prod.splits option.splits)
qed

lemma fatal_sample: "sublist ''ValidationException'' ''ValidationException: bad voice''"
  by code_simp

lemma first_line_sample:
  "first_line ''ValidationException: bad voice'' = ''ValidationException: bad voice''"
  by code_simp

lemma not_fatal_sample:
  "\<not> sublist ''Invalid voice ID'' ''connection reset''
   \<and> \<not> sublist ''ValidationException'' ''connection reset''
   \<and> \<not> sublist ''Error(s):'' ''connection reset''"
  by code_simp

text \<open>
  Claim C6. Let the loop be running after the chunks \<open>pre\<close>, in state \<open>s1\<close>, and let the next
  receive raise \<open>e\<close>. Then \<^verbatim>\<open>_process_responses\<close> returns, whatever the stream would deliver
  afterwards, with the active flag false. When the message of \<open>e\<close> contains
  \<^verbatim>\<open>Invalid voice ID\<close>, \<^verbatim>\<open>ValidationException\<close> or \<^verbatim>\<open>Error(s):\<close>, the output queue has
  gained one error event with \<^verbatim>\<open>fatal: true\<close> (and then the sentinel of the
  \<^verbatim>\<open>finally\<close> clause); otherwise it has gained the sentinel only.
\<close>

theorem receive_error_ends_loop:
  assumes "response_loop H L pre s = (None, s1)"
  shows "process_responses H L (pre @ RecvRaises e # rs) s
           = (Some LoopReturned,
              s1\<lparr>is_active := False,
                 output_queue := output_queue s1 @
                   (if sublist ''Invalid voice ID'' (exn_str e)
                       \<or> sublist ''ValidationException'' (exn_str e)
                       \<or> sublist ''Error(s):'' (exn_str e)
                    then [JObject [(''event'', JObject [(''error'', JObject
                            [(''type'', JStr ''BedrockStreamError''),
                             (''message'', JStr (first_line (exn_str e))),
                             (''fatal'', JBool True)])])]]
                    else [])
                   @ [JNull]\<rparr>)"
proof -
  have act: "is_active s1"
    using assms by (rule response_loop_awaiting_active)
  have "response_loop H L (pre @ RecvRaises e # rs) s = response_loop H L (RecvRaises e # rs) s1"
    using assms by (rule response_loop_append)
  then show ?thesis
    using act
    by (simp add: process_responses_def on_receive_error_def is_fatal_bedrock_error_def
          fatal_error_payload_def Let_def)
qed

theorem receive_error_ends_loop_witness:
  "process_responses tool_handlers sample_lib
     ([NoBytes] @ RecvRaises (OtherException ''ValidationException: bad voice'') # [NoBytes])
     (manager_init\<lparr>is_active := True\<rparr>)
   = (Some LoopReturned,
      manager_init\<lparr>is_active := False,
        output_queue :=
          [JObject [(''event'', JObject [(''error'', JObject
             [(''type'', JStr ''BedrockStreamError''),
              (''message'', JStr ''ValidationException: bad voice''),
              (''fatal'', JBool True)])])],
           JNull]\<rparr>)
   \<and> process_responses tool_handlers sample_lib
     ([NoBytes] @ RecvRaises (ConnectionError ''connection reset'') # [NoBytes])
     (manager_init\<lparr>is_active := True\<rparr>)
   = (Some LoopReturned, manager_init\<lparr>is_active := False, output_queue := [JNull]\<rparr>)"
proof -
  have run: "response_loop tool_handlers sample_lib [NoBytes] (manager_init\<lparr>is_active := True\<rparr>)
               = (None, manager_init\<lparr>is_active := True\<rparr>)"
    by simp
  show ?thesis
    using receive_error_ends_loop [OF run, of "OtherException ''ValidationException: bad voice''"
            "[NoBytes]"]
          receive_error_ends_loop [OF run, of "ConnectionError ''connection reset''" "[NoBytes]"]
    by (simp add: fatal_sample first_line_sample not_fatal_sample manager_init_def)
qed

section \<open>Deliveries for an unknown operation id\<close>

lemma deliver_unknown:
  "dict_key analysis_id \<notin> dom (pending_screenshot_events s) \<Longrightarrow>
   deliver_screenshot_data analysis_id image_data_url error_message s
     = (if hashable analysis_id then Inr ()
        else Inl (TypeError (''unhashable type: '' @ quoted (type_name analysis_id))), s)"
  by (simp add: deliver_screenshot_data_def py_in_dict_def)

lemma timeout_deregisters:
  "pending_screenshot_events (snd (image_analysis_resume L a ctx WaitTimeout s)) (JStr a) = None"
  by (simp add: image_analysis_resume_def wait_cleanup_def Let_def)

text \<open>
  Claim C10. \<^verbatim>\<open>deliver_screenshot_data\<close> called with an operation id that is not a key of
  \<open>pending_screenshot_events\<close> leaves the whole state as it was: no entry in
  \<open>received_screenshot_data\<close>, no event set. For a hashable id the call returns normally.
  In particular, once the waiting task has resumed from a timeout, which removes its
  registration, a delivery for its operation id changes nothing.
\<close>

theorem delivery_for_unknown_id_changes_nothing:
  "(dict_key analysis_id \<notin> dom (pending_screenshot_events s) \<longrightarrow>
      snd (deliver_screenshot_data analysis_id image_data_url error_message s) = s
      \<and> (hashable analysis_id \<longrightarrow>
           fst (deliver_screenshot_data analysis_id image_data_url error_message s) = Inr ()))
   \<and> deliver_screenshot_data (JStr a) image_data_url error_message
        (snd (image_analysis_resume L a ctx WaitTimeout (image_analysis_start a s)))
      = (Inr (), snd (image_analysis_resume L a ctx WaitTimeout (image_analysis_start a s)))"
proof -
  have "dict_key (JStr a) \<notin> dom (pending_screenshot_events
          (snd (image_analysis_resume L a ctx WaitTimeout (image_analysis_start a s))))"
    using timeout_deregisters [of L a ctx "image_analysis_start a s"] by (simp add: domIff)
  then show ?thesis
    by (simp add: deliver_unknown)
qed

theorem delivery_for_unknown_id_changes_nothing_witness:
  "deliver_screenshot_data (JStr ''op-1'') (JStr ''data:image/png;base64,AAAA'') JNull manager_init
     = (Inr (), manager_init)
   \<and> snd (image_analysis_resume sample_lib ''op-1'' (JStr ''colors'') WaitTimeout
             (image_analysis_start ''op-1'' manager_init))
     = manager_init
         \<lparr>event_store := [False],
          output_queue := [JObject [(''customEvent'', JStr ''requestScreenshotForAnalysis''),
                                    (''payload'', JObject [(''imageAnalysisId'', JStr ''op-1'')])]]\<rparr>
   \<and> deliver_screenshot_data (JStr ''op-1'') (JStr ''data:image/png;base64,AAAA'') JNull
        (snd (image_analysis_resume sample_lib ''op-1'' (JStr ''colors'') WaitTimeout
                (image_analysis_start ''op-1'' manager_init)))
     = (Inr (), snd (image_analysis_resume sample_lib ''op-1'' (JStr ''colors'') WaitTimeout
                       (image_analysis_start ''op-1'' manager_init)))"
  using delivery_for_unknown_id_changes_nothing
          [of "JStr ''op-1''" manager_init "JStr ''data:image/png;base64,AAAA''" JNull
              "''op-1''" sample_lib "JStr ''colors''"]
  by (simp add: manager_init_def image_analysis_resume_def image_analysis_start_def
        wait_cleanup_def Let_def prod_eq_iff)

section \<open>The sentinel at the end of the response loop\<close>



















section \<open>One background task per invocation id\<close>

lemma launch_when_active:
  "hashable i \<Longrightarrow> dict_key i \<in> dom (active_background_tasks s) \<Longrightarrow>
   launch_background_tool_task i n w s = (Inr (), s)"
  by (simp add: launch_background_tool_task_def py_in_dict_def)

lemma launch_when_free:
  "hashable i \<Longrightarrow> dict_key i \<notin> dom (active_background_tasks s) \<Longrightarrow>
   launch_background_tool_task i n w s
     = (Inr (),
        s\<lparr>loop_tasks := loop_tasks s @ [\<lparr>task_tool_use_id = i, task_tool_name = n, task_work = w\<rparr>],
          active_background_tasks :=
            (active_background_tasks s)
              (dict_key i \<mapsto> \<lparr>task_tool_use_id = i, task_tool_name = n, task_work = w\<rparr>)\<rparr>)"
  by (simp add: launch_background_tool_task_def py_in_dict_def Let_def)

lemma remove1_appended: "x \<notin> set xs \<Longrightarrow> remove1 x (xs @ [x]) = xs"
  by (induction xs) auto

text \<open>
  Claim C2. Let no task be active or scheduled for the invocation id \<open>i\<close>. The first launch
  schedules one task \<open>t\<close> and enters it in the active-task table. A launch with an id that
  is in the table returns without changing anything, in any state, so after a second launch with \<open>i\<close>
  (whatever its tool name and work) the loop still holds exactly one task for \<open>i\<close>. When
  \<open>t\<close> completes with a payload, the cache is the old cache with that payload written
  under the lower-cased tool name, the table is as before the launches, no task for \<open>i\<close>
  remains that could write again, and one completion notification is queued.
\<close>

theorem one_task_per_invocation_id:
  assumes "hashable i"
      and "dict_key i \<notin> dom (active_background_tasks s)"
      and "\<forall>u \<in> set (loop_tasks s). task_tool_use_id u \<noteq> i"
      and "t = \<lparr>task_tool_use_id = i, task_tool_name = n, task_work = w\<rparr>"
      and "s1 = snd (launch_background_tool_task i n w s)"
      and "s2 = snd (launch_background_tool_task i n' w' s1)"
  shows "(\<forall>s0 m v. dict_key i \<in> dom (active_background_tasks s0) \<longrightarrow>
            launch_background_tool_task i m v s0 = (Inr (), s0))
       \<and> launch_background_tool_task i n' w' s1 = (Inr (), s1)
       \<and> active_background_tasks s1 (dict_key i) = Some t
       \<and> filter (\<lambda>u. task_tool_use_id u = i) (loop_tasks s2) = [t]
       \<and> active_background_tasks s2 = (active_background_tasks s)(dict_key i \<mapsto> t)
       \<and> task_wrapper L t (Returned p) s2
           = s\<lparr>completed_async_tool_results :=
                  (completed_async_tool_results s)(lower n \<mapsto> p),
                output_queue := output_queue s @
                  [completion_notification n i ''success''
                     (''The '' @ n @ '' operation (ID: '' @ py_str L i
                      @ '') has completed. You can now ask for the results.'')]\<rparr>"
proof -
  have s1: "s1 = s\<lparr>loop_tasks := loop_tasks s @ [t],
                    active_background_tasks := (active_background_tasks s)(dict_key i \<mapsto> t)\<rparr>"
    using assms(1,2,4,5) by (simp add: launch_when_free)
  have again: "launch_background_tool_task i n' w' s1 = (Inr (), s1)"
    using assms(1) s1 by (simp add: launch_when_active)
  then have s2: "s2 = s1"
    using assms(6) by simp
  have none: "filter (\<lambda>u. task_tool_use_id u = i) (loop_tasks s) = []"
    using assms(3) by (simp add: filter_empty_conv)
  have fresh: "t \<notin> set (loop_tasks s)"
    using assms(3,4) by auto
  have restore: "(active_background_tasks s)(dict_key i := None) = active_background_tasks s"
    using assms(2) by (auto simp: fun_eq_iff domIff)
  have completed: "task_wrapper L t (Returned p) s1
           = s\<lparr>completed_async_tool_results :=
                  (completed_async_tool_results s)(lower n \<mapsto> p),
                output_queue := output_queue s @
                  [completion_notification n i ''success''
                     (''The '' @ n @ '' operation (ID: '' @ py_str L i
                      @ '') has completed. You can now ask for the results.'')]\<rparr>"
    using fresh restore
    by (simp add: task_wrapper_def Let_def s1 assms(4) remove1_appended)
  have present: "\<forall>s0 m v. dict_key i \<in> dom (active_background_tasks s0) \<longrightarrow>
            launch_background_tool_task i m v s0 = (Inr (), s0)"
    using assms(1) by (simp add: launch_when_active)
  show ?thesis
    using present s1 again s2 none completed by (simp add: assms(4))
qed

theorem one_task_per_invocation_id_witness:
  "launch_background_tool_task (JStr ''t1'') ''agentSearch''
       (AgentSearchWork (JStr ''Y'') (JStr ''t1''))
       (snd (launch_background_tool_task (JStr ''t1'') ''agentSearch''
               (AgentSearchWork (JStr ''X'') (JStr ''t1'')) manager_live))
     = (Inr (), snd (launch_background_tool_task (JStr ''t1'') ''agentSearch''
               (AgentSearchWork (JStr ''X'') (JStr ''t1'')) manager_live))
   \<and> loop_tasks (snd (launch_background_tool_task (JStr ''t1'') ''agentSearch''
               (AgentSearchWork (JStr ''X'') (JStr ''t1'')) manager_live))
     = [\<lparr>task_tool_use_id = JStr ''t1'', task_tool_name = ''agentSearch'',
          task_work = AgentSearchWork (JStr ''X'') (JStr ''t1'')\<rparr>]
   \<and> completed_async_tool_results
       (task_wrapper sample_lib
          \<lparr>task_tool_use_id = JStr ''t1'', task_tool_name = ''agentSearch'',
           task_work = AgentSearchWork (JStr ''X'') (JStr ''t1'')\<rparr>
          (Returned search_result_X)
          (snd (launch_background_tool_task (JStr ''t1'') ''agentSearch''
               (AgentSearchWork (JStr ''Y'') (JStr ''t1''))
               (snd (launch_background_tool_task (JStr ''t1'') ''agentSearch''
                  (AgentSearchWork (JStr ''X'') (JStr ''t1'')) manager_live)))))
     = [''agentsearch'' \<mapsto> search_result_X]"
proof -
  have h: "hashable (JStr ''t1'')"
    by simp
  have free: "dict_key (JStr ''t1'') \<notin> dom (active_background_tasks manager_live)"
    by (simp add: manager_live_def manager_init_def)
  have idle: "\<forall>u \<in> set (loop_tasks manager_live). task_tool_use_id u \<noteq> JStr ''t1''"
    by (simp add: manager_live_def manager_init_def)
  note T = one_task_per_invocation_id
             [where n = "''agentSearch''" and w = "AgentSearchWork (JStr ''X'') (JStr ''t1'')"
                and n' = "''agentSearch''" and w' = "AgentSearchWork (JStr ''Y'') (JStr ''t1'')"
                and L = sample_lib and p = search_result_X,
              OF h free idle refl refl refl]
  note again = T [THEN conjunct2, THEN conjunct1]
  note completed = T [THEN conjunct2, THEN conjunct2, THEN conjunct2, THEN conjunct2,
                      THEN conjunct2]
  have scheduled:
    "loop_tasks (snd (launch_background_tool_task (JStr ''t1'') ''agentSearch''
               (AgentSearchWork (JStr ''X'') (JStr ''t1'')) manager_live))
     = [\<lparr>task_tool_use_id = JStr ''t1'', task_tool_name = ''agentSearch'',
          task_work = AgentSearchWork (JStr ''X'') (JStr ''t1'')\<rparr>]"
    unfolding launch_when_free [OF h free]
    by (simp add: manager_live_def manager_init_def)
  have cache:
    "completed_async_tool_results
       (task_wrapper sample_lib
          \<lparr>task_tool_use_id = JStr ''t1'', task_tool_name = ''agentSearch'',
           task_work = AgentSearchWork (JStr ''X'') (JStr ''t1'')\<rparr>
          (Returned search_result_X)
          (snd (launch_background_tool_task (JStr ''t1'') ''agentSearch''
               (AgentSearchWork (JStr ''Y'') (JStr ''t1''))
               (snd (launch_background_tool_task (JStr ''t1'') ''agentSearch''
                  (AgentSearchWork (JStr ''X'') (JStr ''t1'')) manager_live)))))
     = [''agentsearch'' \<mapsto> search_result_X]"
    unfolding completed
    by (simp add: lower_agentSearch manager_live_def manager_init_def)
  show ?thesis
    using again scheduled cache by blast
qed

section \<open>The retrieval protocol of the slow tools\<close>

lemma agent_search_checked:
  assumes "truthy i" and "hashable i"
      and "json_loads_str L c = Some (JObject input)"
      and "map_of input ''query'' = Some q" and "truthy q"
  shows "handle_agent_search L s (tool_use n i c) =
           (case completed_async_tool_results s (lower n) of
              Some p \<Rightarrow>
                (Inr (reply (json_dumps L p) ''success''),
                 s\<lparr>completed_async_tool_results :=
                     (completed_async_tool_results s)(lower n := None)\<rparr>)
            | None \<Rightarrow>
                if dict_key i \<in> dom (active_background_tasks s)
                then (Inr (reply (search_still_working L n q) ''success''), s)
                else (Inr (reply (search_starting L n q) ''success''),
                      s\<lparr>loop_tasks := loop_tasks s @
                          [\<lparr>task_tool_use_id = i, task_tool_name = n,
                            task_work = AgentSearchWork q i\<rparr>],
                        active_background_tasks :=
                          (active_background_tasks s)
                            (dict_key i \<mapsto> \<lparr>task_tool_use_id = i, task_tool_name = n,
                                             task_work = AgentSearchWork q i\<rparr>)\<rparr>))"
  using assms
  by (simp add: handle_agent_search_def agent_search_body_def tool_use_def json_loads_def
        py_in_dict_def launch_background_tool_task_def Let_def split: option.splits)

lemma lower_imageAnalyzer: "lower ''imageAnalyzer'' = ''imageanalyzer''"
  by code_simp

lemma sample_loads_X:
  \<open>json_loads_str sample_lib ''{"query": "X"}'' = Some (JObject [(''query'', JStr ''X'')])\<close>
  by (simp add: sample_lib_def sample_loads_def)

lemma sample_loads_empty_object: \<open>json_loads_str sample_lib ''{}'' = Some (JObject [])\<close>
  by (simp add: sample_lib_def sample_loads_def)

lemma sample_loads_empty_query:
  \<open>json_loads_str sample_lib ''{"query": ""}'' = Some (JObject [(''query'', JStr [])])\<close>
  by (simp add: sample_lib_def sample_loads_def)

lemma sample_loads_not_json: "json_loads_str sample_lib ''not json'' = None"
  by (simp add: sample_lib_def sample_loads_def)

lemma handle_agent_search_on_tool_use:
  "handle_agent_search L s (tool_use n i c) =
     (if \<not> truthy i then
        (Inr (reply (''Error: Missing toolUseId for '' @ n @ ''.'') ''error''), s)
      else case json_loads_str L c of
             None \<Rightarrow>
               (Inr (reply (''Error: Invalid input format for '' @ n @ '' tool.'') ''error''), s)
           | Some v \<Rightarrow>
               (case py_get v ''query'' (JStr []) of
                  Inl e \<Rightarrow>
                    (Inr (reply (''An unexpected error occurred while initiating '' @ n @ ''.'')
                                ''error''), s)
                | Inr q \<Rightarrow>
                    if \<not> truthy q then
                      (Inr (reply (''Please provide a query for '' @ n @ ''.'') ''error''), s)
                    else
                      (case completed_async_tool_results s (lower n) of
                         Some p \<Rightarrow>
                           (Inr (reply (json_dumps L p) ''success''),
                            s\<lparr>completed_async_tool_results :=
                                (completed_async_tool_results s)(lower n := None)\<rparr>)
                       | None \<Rightarrow>
                           if \<not> hashable i then
                             (Inr (reply (''An unexpected error occurred while initiating ''
                                          @ n @ ''.'') ''error''), s)
                           else if dict_key i \<in> dom (active_background_tasks s) then
                             (Inr (reply (search_still_working L n q) ''success''), s)
                           else
                             (Inr (reply (search_starting L n q) ''success''),
                              s\<lparr>loop_tasks := loop_tasks s @
                                  [\<lparr>task_tool_use_id = i, task_tool_name = n,
                                    task_work = AgentSearchWork q i\<rparr>],
                                active_background_tasks :=
                                  (active_background_tasks s)
                                    (dict_key i \<mapsto>
                                       \<lparr>task_tool_use_id = i, task_tool_name = n,
                                        task_work = AgentSearchWork q i\<rparr>)\<rparr>))))"
proof (cases "json_loads_str L c")
  case None
  then show ?thesis
    by (simp add: handle_agent_search_def agent_search_body_def tool_use_def json_loads_def)
next
  case (Some v)
  show ?thesis
  proof (cases "py_get v ''query'' (JStr [])")
    case (Inl e)
    then obtain m where "e = AttributeError m"
      by (cases v) (auto simp: no_attribute_def)
    then show ?thesis
      using Some Inl
      by (simp add: handle_agent_search_def agent_search_body_def tool_use_def json_loads_def)
  next
    case (Inr q)
    then show ?thesis
      using Some
      by (simp add: handle_agent_search_def agent_search_body_def tool_use_def json_loads_def
            py_in_dict_def launch_background_tool_task_def Let_def split: option.splits)
  qed
qed

lemma handle_imageanalyzer_on_tool_use:
  "handle_imageanalyzer L s (tool_use n i c) =
     (if \<not> truthy i then
        (Inr (reply ''Error: System error (missing toolUseId).'' ''error''), s)
      else case json_loads_str L c of
             None \<Rightarrow>
               (Inr (reply (''Error: Invalid input format for '' @ n @ '' tool.'') ''error''), s)
           | Some v \<Rightarrow>
               (case py_get v ''context'' (JStr ''the current page content'') of
                  Inl e \<Rightarrow>
                    (Inr (reply (''An unexpected error occurred while initiating '' @ n @ ''.'')
                                ''error''), s)
                | Inr ctx \<Rightarrow>
                    (case completed_async_tool_results s (lower n) of
                       Some p \<Rightarrow>
                         (Inr (reply (case p of JObject kv \<Rightarrow> json_dumps L p | _ \<Rightarrow> py_str L p)
                                     ''success''),
                          s\<lparr>completed_async_tool_results :=
                              (completed_async_tool_results s)(lower n := None)\<rparr>)
                     | None \<Rightarrow>
                         if \<not> hashable i then
                           (Inr (reply (''An unexpected error occurred while initiating ''
                                        @ n @ ''.'') ''error''), s)
                         else if dict_key i \<in> dom (active_background_tasks s) then
                           (Inr (reply image_still_processing ''success''), s)
                         else
                           (Inr (reply (image_starting L ctx) ''success''),
                            s\<lparr>uuid_count := Suc (uuid_count s),
                              loop_tasks := loop_tasks s @
                                [\<lparr>task_tool_use_id = i, task_tool_name = n,
                                  task_work = ImageAnalysisWork (uuid4_str L (uuid_count s)) ctx\<rparr>],
                              active_background_tasks :=
                                (active_background_tasks s)
                                  (dict_key i \<mapsto>
                                     \<lparr>task_tool_use_id = i, task_tool_name = n,
                                      task_work =
                                        ImageAnalysisWork (uuid4_str L (uuid_count s)) ctx\<rparr>)\<rparr>))))"
proof (cases "json_loads_str L c")
  case None
  then show ?thesis
    by (simp add: handle_imageanalyzer_def imageanalyzer_body_def tool_use_def json_loads_def)
next
  case (Some v)
  show ?thesis
  proof (cases "py_get v ''context'' (JStr ''the current page content'')")
    case (Inl e)
    then obtain m where "e = AttributeError m"
      by (cases v) (auto simp: no_attribute_def)
    then show ?thesis
      using Some Inl
      by (simp add: handle_imageanalyzer_def imageanalyzer_body_def tool_use_def json_loads_def)
  next
    case (Inr ctx)
    then show ?thesis
      using Some
      by (simp add: handle_imageanalyzer_def imageanalyzer_body_def tool_use_def json_loads_def
            py_in_dict_def launch_background_tool_task_def Let_def split: option.splits)
  qed
qed

lemma py_get_not_object: "\<forall>kv. v \<noteq> JObject kv \<Longrightarrow> \<exists>e. py_get v k d = Inl e"
  by (cases v) simp_all

lemma py_get_object:
  "py_get (JObject kv) k d = Inr (case map_of kv k of None \<Rightarrow> d | Some x \<Rightarrow> x)"
  by simp

text \<open>
  Claim C1, as the code has it. The handler first checks its input: an invocation with a
  missing or empty invocation id, with a content that is not JSON or does not parse to an
  object, or with a missing or empty query, is answered with status \<^verbatim>\<open>error\<close> and changes
  nothing; the cache is not read. For an invocation that passes these checks: if a
  result is cached under the lower-cased tool name, the handler pops it and returns its
  serialization with status \<^verbatim>\<open>success\<close>; else, if the invocation id is unhashable (a list
  or a dict), the reply has status \<^verbatim>\<open>error\<close> and nothing changes; else, if a background
  task is active for this invocation id, it returns the "still working" placeholder with
  status \<^verbatim>\<open>success\<close> and changes nothing; else it launches a background task and returns
  the "starting" placeholder with status \<^verbatim>\<open>success\<close>. In particular, from a state with
  nothing cached and no task for the id: the first invocation starts the task, the same
  invocation (same id) repeated before the completion gets "still working", and after the
  task has completed with a payload a further invocation returns that payload and leaves
  no cache entry under the tool name.
\<close>

theorem agent_search_retrieval_protocol:
  assumes "t = \<lparr>task_tool_use_id = i, task_tool_name = n, task_work = AgentSearchWork q i\<rparr>"
      and "s1 = s\<lparr>loop_tasks := loop_tasks s @ [t],
                    active_background_tasks := (active_background_tasks s)(dict_key i \<mapsto> t)\<rparr>"
  shows "(\<not> truthy i \<longrightarrow>
            handle_agent_search L s (tool_use n i c)
              = (Inr (reply (''Error: Missing toolUseId for '' @ n @ ''.'') ''error''), s))
       \<and> (truthy i \<and> json_loads_str L c = None \<longrightarrow>
            handle_agent_search L s (tool_use n i c)
              = (Inr (reply (''Error: Invalid input format for '' @ n @ '' tool.'') ''error''), s))
       \<and> (truthy i \<and> json_loads_str L c = Some v \<and> (\<forall>kv. v \<noteq> JObject kv) \<longrightarrow>
            handle_agent_search L s (tool_use n i c)
              = (Inr (reply (''An unexpected error occurred while initiating '' @ n @ ''.'')
                            ''error''), s))
       \<and> (truthy i \<and> json_loads_str L c = Some (JObject input)
            \<and> \<not> truthy (case map_of input ''query'' of None \<Rightarrow> JStr [] | Some x \<Rightarrow> x) \<longrightarrow>
            handle_agent_search L s (tool_use n i c)
              = (Inr (reply (''Please provide a query for '' @ n @ ''.'') ''error''), s))
       \<and> (truthy i \<and> json_loads_str L c = Some (JObject input)
            \<and> map_of input ''query'' = Some q \<and> truthy q \<longrightarrow>
            (\<forall>p. completed_async_tool_results s (lower n) = Some p \<longrightarrow>
               handle_agent_search L s (tool_use n i c)
                 = (Inr (reply (json_dumps L p) ''success''),
                    s\<lparr>completed_async_tool_results :=
                        (completed_async_tool_results s)(lower n := None)\<rparr>))
          \<and> (completed_async_tool_results s (lower n) = None \<and> \<not> hashable i \<longrightarrow>
               handle_agent_search L s (tool_use n i c)
                 = (Inr (reply (''An unexpected error occurred while initiating '' @ n @ ''.'')
                               ''error''), s))
          \<and> (completed_async_tool_results s (lower n) = None \<and> hashable i
               \<and> dict_key i \<in> dom (active_background_tasks s) \<longrightarrow>
               handle_agent_search L s (tool_use n i c)
                 = (Inr (reply (search_still_working L n q) ''success''), s))
          \<and> (completed_async_tool_results s (lower n) = None \<and> hashable i
               \<and> dict_key i \<notin> dom (active_background_tasks s) \<longrightarrow>
               handle_agent_search L s (tool_use n i c)
                 = (Inr (reply (search_starting L n q) ''success''), s1)
               \<and> handle_agent_search L s1 (tool_use n i c)
                 = (Inr (reply (search_still_working L n q) ''success''), s1)
               \<and> (\<forall>p. fst (handle_agent_search L (task_wrapper L t (Returned p) s1)
                               (tool_use n i c))
                          = Inr (reply (json_dumps L p) ''success'')
                      \<and> completed_async_tool_results
                           (snd (handle_agent_search L (task_wrapper L t (Returned p) s1)
                                   (tool_use n i c))) (lower n) = None)))"
proof -
  note total = handle_agent_search_on_tool_use
  have missing: "\<not> truthy i \<longrightarrow>
            handle_agent_search L s (tool_use n i c)
              = (Inr (reply (''Error: Missing toolUseId for '' @ n @ ''.'') ''error''), s)"
    by (simp add: total)
  have not_json: "truthy i \<and> json_loads_str L c = None \<longrightarrow>
            handle_agent_search L s (tool_use n i c)
              = (Inr (reply (''Error: Invalid input format for '' @ n @ '' tool.'') ''error''), s)"
    by (simp add: total)
  have not_object: "truthy i \<and> json_loads_str L c = Some v \<and> (\<forall>kv. v \<noteq> JObject kv) \<longrightarrow>
            handle_agent_search L s (tool_use n i c)
              = (Inr (reply (''An unexpected error occurred while initiating '' @ n @ ''.'')
                            ''error''), s)"
  proof (intro impI, elim conjE)
    assume a: "truthy i" "json_loads_str L c = Some v" "\<forall>kv. v \<noteq> JObject kv"
    then obtain e where "py_get v ''query'' (JStr []) = Inl e"
      using py_get_not_object by blast
    then show "handle_agent_search L s (tool_use n i c)
              = (Inr (reply (''An unexpected error occurred while initiating '' @ n @ ''.'')
                            ''error''), s)"
      using a by (simp add: total)
  qed
  have no_query: "truthy i \<and> json_loads_str L c = Some (JObject input)
            \<and> \<not> truthy (case map_of input ''query'' of None \<Rightarrow> JStr [] | Some x \<Rightarrow> x) \<longrightarrow>
            handle_agent_search L s (tool_use n i c)
              = (Inr (reply (''Please provide a query for '' @ n @ ''.'') ''error''), s)"
    by (simp add: total)
  have passes: "handle_agent_search L s0 (tool_use n i c) =
          (case completed_async_tool_results s0 (lower n) of
             Some p \<Rightarrow>
               (Inr (reply (json_dumps L p) ''success''),
                s0\<lparr>completed_async_tool_results :=
                    (completed_async_tool_results s0)(lower n := None)\<rparr>)
           | None \<Rightarrow>
               if \<not> hashable i then
                 (Inr (reply (''An unexpected error occurred while initiating '' @ n @ ''.'')
                             ''error''), s0)
               else if dict_key i \<in> dom (active_background_tasks s0) then
                 (Inr (reply (search_still_working L n q) ''success''), s0)
               else
                 (Inr (reply (search_starting L n q) ''success''),
                  s0\<lparr>loop_tasks := loop_tasks s0 @
                      [\<lparr>task_tool_use_id = i, task_tool_name = n,
                        task_work = AgentSearchWork q i\<rparr>],
                    active_background_tasks :=
                      (active_background_tasks s0)
                        (dict_key i \<mapsto>
                           \<lparr>task_tool_use_id = i, task_tool_name = n,
                            task_work = AgentSearchWork q i\<rparr>)\<rparr>))"
    if "truthy i" "json_loads_str L c = Some (JObject input)"
       "map_of input ''query'' = Some q" "truthy q" for s0
    using that by (simp add: total)
  have cached: "completed_async_tool_results (task_wrapper L t (Returned p) s1) (lower n) = Some p"
    for p
    by (simp add: task_wrapper_def Let_def assms(1))
  have main: "truthy i \<and> json_loads_str L c = Some (JObject input)
            \<and> map_of input ''query'' = Some q \<and> truthy q \<longrightarrow>
            (\<forall>p. completed_async_tool_results s (lower n) = Some p \<longrightarrow>
               handle_agent_search L s (tool_use n i c)
                 = (Inr (reply (json_dumps L p) ''success''),
                    s\<lparr>completed_async_tool_results :=
                        (completed_async_tool_results s)(lower n := None)\<rparr>))
          \<and> (completed_async_tool_results s (lower n) = None \<and> \<not> hashable i \<longrightarrow>
               handle_agent_search L s (tool_use n i c)
                 = (Inr (reply (''An unexpected error occurred while initiating '' @ n @ ''.'')
                               ''error''), s))
          \<and> (completed_async_tool_results s (lower n) = None \<and> hashable i
               \<and> dict_key i \<in> dom (active_background_tasks s) \<longrightarrow>
               handle_agent_search L s (tool_use n i c)
                 = (Inr (reply (search_still_working L n q) ''success''), s))
          \<and> (completed_async_tool_results s (lower n) = None \<and> hashable i
               \<and> dict_key i \<notin> dom (active_background_tasks s) \<longrightarrow>
               handle_agent_search L s (tool_use n i c)
                 = (Inr (reply (search_starting L n q) ''success''), s1)
               \<and> handle_agent_search L s1 (tool_use n i c)
                 = (Inr (reply (search_still_working L n q) ''success''), s1)
               \<and> (\<forall>p. fst (handle_agent_search L (task_wrapper L t (Returned p) s1)
                               (tool_use n i c))
                          = Inr (reply (json_dumps L p) ''success'')
                      \<and> completed_async_tool_results
                           (snd (handle_agent_search L (task_wrapper L t (Returned p) s1)
                                   (tool_use n i c))) (lower n) = None))"
  proof (intro impI, elim conjE)
    assume a: "truthy i" "json_loads_str L c = Some (JObject input)"
              "map_of input ''query'' = Some q" "truthy q"
    note run = passes [OF a]
    have hit: "\<forall>p. completed_async_tool_results s (lower n) = Some p \<longrightarrow>
               handle_agent_search L s (tool_use n i c)
                 = (Inr (reply (json_dumps L p) ''success''),
                    s\<lparr>completed_async_tool_results :=
                        (completed_async_tool_results s)(lower n := None)\<rparr>)"
      by (simp add: run)
    have unhashable: "completed_async_tool_results s (lower n) = None \<and> \<not> hashable i \<longrightarrow>
               handle_agent_search L s (tool_use n i c)
                 = (Inr (reply (''An unexpected error occurred while initiating '' @ n @ ''.'')
                               ''error''), s)"
      by (simp add: run)
    have busy: "completed_async_tool_results s (lower n) = None \<and> hashable i
               \<and> dict_key i \<in> dom (active_background_tasks s) \<longrightarrow>
               handle_agent_search L s (tool_use n i c)
                 = (Inr (reply (search_still_working L n q) ''success''), s)"
      by (simp add: run)
    have start: "completed_async_tool_results s (lower n) = None \<and> hashable i
               \<and> dict_key i \<notin> dom (active_background_tasks s) \<longrightarrow>
               handle_agent_search L s (tool_use n i c)
                 = (Inr (reply (search_starting L n q) ''success''), s1)"
      by (simp add: run assms)
    have again: "completed_async_tool_results s (lower n) = None \<and> hashable i \<longrightarrow>
               handle_agent_search L s1 (tool_use n i c)
                 = (Inr (reply (search_still_working L n q) ''success''), s1)"
      by (simp add: run assms(2))
    have collect: "fst (handle_agent_search L (task_wrapper L t (Returned p) s1) (tool_use n i c))
                       = Inr (reply (json_dumps L p) ''success'')
                   \<and> completed_async_tool_results
                        (snd (handle_agent_search L (task_wrapper L t (Returned p) s1)
                                (tool_use n i c))) (lower n) = None"
      for p
      by (simp add: run cached)
    show "(\<forall>p. completed_async_tool_results s (lower n) = Some p \<longrightarrow>
               handle_agent_search L s (tool_use n i c)
                 = (Inr (reply (json_dumps L p) ''success''),
                    s\<lparr>completed_async_tool_results :=
                        (completed_async_tool_results s)(lower n := None)\<rparr>))
          \<and> (completed_async_tool_results s (lower n) = None \<and> \<not> hashable i \<longrightarrow>
               handle_agent_search L s (tool_use n i c)
                 = (Inr (reply (''An unexpected error occurred while initiating '' @ n @ ''.'')
                               ''error''), s))
          \<and> (completed_async_tool_results s (lower n) = None \<and> hashable i
               \<and> dict_key i \<in> dom (active_background_tasks s) \<longrightarrow>
               handle_agent_search L s (tool_use n i c)
                 = (Inr (reply (search_still_working L n q) ''success''), s))
          \<and> (completed_async_tool_results s (lower n) = None \<and> hashable i
               \<and> dict_key i \<notin> dom (active_background_tasks s) \<longrightarrow>
               handle_agent_search L s (tool_use n i c)
                 = (Inr (reply (search_starting L n q) ''success''), s1)
               \<and> handle_agent_search L s1 (tool_use n i c)
                 = (Inr (reply (search_still_working L n q) ''success''), s1)
               \<and> (\<forall>p. fst (handle_agent_search L (task_wrapper L t (Returned p) s1)
                               (tool_use n i c))
                          = Inr (reply (json_dumps L p) ''success'')
                      \<and> completed_async_tool_results
                           (snd (handle_agent_search L (task_wrapper L t (Returned p) s1)
                                   (tool_use n i c))) (lower n) = None))"
      using hit unhashable busy start again collect by blast
  qed
  show ?thesis
    using missing not_json not_object no_query main by (intro conjI)
qed

theorem agent_search_retrieval_protocol_witness:
  \<open>handle_agent_search sample_lib manager_live
       (tool_use ''agentSearch'' (JStr ''t1'') ''{"query": "X"}'')
     = (Inr (reply (search_starting sample_lib ''agentSearch'' (JStr ''X'')) ''success''),
        manager_live
          \<lparr>loop_tasks := loop_tasks manager_live @
             [\<lparr>task_tool_use_id = JStr ''t1'', task_tool_name = ''agentSearch'',
               task_work = AgentSearchWork (JStr ''X'') (JStr ''t1'')\<rparr>],
           active_background_tasks := (active_background_tasks manager_live)
             (dict_key (JStr ''t1'') \<mapsto>
                \<lparr>task_tool_use_id = JStr ''t1'', task_tool_name = ''agentSearch'',
                 task_work = AgentSearchWork (JStr ''X'') (JStr ''t1'')\<rparr>)\<rparr>)
   \<and> handle_agent_search sample_lib manager_cached
       (tool_use ''agentSearch'' (JStr ''t2'') ''{"query": "X"}'')
     = (Inr (reply (json_dumps sample_lib search_result_X) ''success''),
        manager_cached
          \<lparr>completed_async_tool_results :=
             (completed_async_tool_results manager_cached)(lower ''agentSearch'' := None)\<rparr>)
   \<and> handle_agent_search sample_lib manager_cached
       (tool_use ''agentSearch'' (JStr []) ''{"query": "X"}'')
     = (Inr (reply ''Error: Missing toolUseId for agentSearch.'' ''error''), manager_cached)
   \<and> handle_agent_search sample_lib manager_cached
       (tool_use ''agentSearch'' (JStr ''t2'') ''not json'')
     = (Inr (reply ''Error: Invalid input format for agentSearch tool.'' ''error''),
        manager_cached)\<close>
proof -
  have pre1: \<open>truthy (JStr ''t1'')
              \<and> json_loads_str sample_lib ''{"query": "X"}'' = Some (JObject [(''query'', JStr ''X'')])
              \<and> map_of [(''query'', JStr ''X'')] ''query'' = Some (JStr ''X'')
              \<and> truthy (JStr ''X'')\<close>
    by (simp add: sample_loads_X)
  have pre2: \<open>truthy (JStr ''t2'')
              \<and> json_loads_str sample_lib ''{"query": "X"}'' = Some (JObject [(''query'', JStr ''X'')])
              \<and> map_of [(''query'', JStr ''X'')] ''query'' = Some (JStr ''X'')
              \<and> truthy (JStr ''X'')\<close>
    by (simp add: sample_loads_X)
  have idle: "completed_async_tool_results manager_live (lower ''agentSearch'') = None
              \<and> hashable (JStr ''t1'')
              \<and> dict_key (JStr ''t1'') \<notin> dom (active_background_tasks manager_live)"
    by (simp add: manager_live_def manager_init_def)
  have hit: "completed_async_tool_results manager_cached (lower ''agentSearch'')
               = Some search_result_X"
    by (simp add: manager_cached_def lower_agentSearch)
  have no_id: "\<not> truthy (JStr [])"
    by simp
  have bad: "truthy (JStr ''t2'') \<and> json_loads_str sample_lib ''not json'' = None"
    by (simp add: sample_loads_not_json)
  note T1 = agent_search_retrieval_protocol
              [where n = "''agentSearch''" and s = manager_live and L = sample_lib
                 and i = "JStr ''t1''" and q = "JStr ''X''"
                 and input = "[(''query'', JStr ''X'')]", OF refl refl]
  note T2 = agent_search_retrieval_protocol
              [where n = "''agentSearch''" and s = manager_cached and L = sample_lib
                 and i = "JStr ''t2''" and q = "JStr ''X''"
                 and input = "[(''query'', JStr ''X'')]", OF refl refl]
  note T3 = agent_search_retrieval_protocol
              [where n = "''agentSearch''" and s = manager_cached and L = sample_lib
                 and i = "JStr []" and q = "JStr ''X''", OF refl refl]
  note first = T1 [THEN conjunct2, THEN conjunct2, THEN conjunct2, THEN conjunct2,
                   THEN mp, OF pre1,
                   THEN conjunct2, THEN conjunct2, THEN conjunct2,
                   THEN mp, OF idle, THEN conjunct1]
  note third = T2 [THEN conjunct2, THEN conjunct2, THEN conjunct2, THEN conjunct2,
                   THEN mp, OF pre2, THEN conjunct1, THEN spec, THEN mp, OF hit]
  note refused = T3 [THEN conjunct1, THEN mp, OF no_id]
  note malformed = T2 [THEN conjunct2, THEN conjunct1, THEN mp, OF bad]
  show ?thesis
    using first third refused malformed by (simp add: lower_agentSearch)
qed

text \<open>
  The claim as written fails on two inputs. With a search result cached, an invocation
  whose query is empty is answered with an error and the cache entry stays. And a second
  invocation of the tool before the completion, under another invocation id, is answered
  with the "starting" placeholder and starts a second background task.
\<close>

theorem agent_search_checks_precede_cache:
  \<open>completed_async_tool_results manager_cached (lower ''agentSearch'') = Some search_result_X
   \<and> handle_agent_search sample_lib manager_cached
        (tool_use ''agentSearch'' (JStr ''t2'') ''{"query": ""}'')
       = (Inr (reply ''Please provide a query for agentSearch.'' ''error''), manager_cached)
   \<and> fst (handle_agent_search sample_lib
             (snd (handle_agent_search sample_lib manager_live
                     (tool_use ''agentSearch'' (JStr ''t1'') ''{"query": "X"}'')))
             (tool_use ''agentSearch'' (JStr ''t2'') ''{"query": "X"}''))
       = Inr (reply (search_starting sample_lib ''agentSearch'' (JStr ''X'')) ''success'')
   \<and> loop_tasks
         (snd (handle_agent_search sample_lib
                 (snd (handle_agent_search sample_lib manager_live
                         (tool_use ''agentSearch'' (JStr ''t1'') ''{"query": "X"}'')))
                 (tool_use ''agentSearch'' (JStr ''t2'') ''{"query": "X"}'')))
       = [\<lparr>task_tool_use_id = JStr ''t1'', task_tool_name = ''agentSearch'',
            task_work = AgentSearchWork (JStr ''X'') (JStr ''t1'')\<rparr>,
          \<lparr>task_tool_use_id = JStr ''t2'', task_tool_name = ''agentSearch'',
            task_work = AgentSearchWork (JStr ''X'') (JStr ''t2'')\<rparr>]\<close>
proof -
  have cached: "completed_async_tool_results manager_cached (lower ''agentSearch'')
                  = Some search_result_X"
    by (simp add: manager_cached_def lower_agentSearch)
  have refused: \<open>handle_agent_search sample_lib manager_cached
        (tool_use ''agentSearch'' (JStr ''t2'') ''{"query": ""}'')
       = (Inr (reply ''Please provide a query for agentSearch.'' ''error''), manager_cached)\<close>
    by (simp add: handle_agent_search_def agent_search_body_def tool_use_def json_loads_def
          sample_loads_empty_query lower_agentSearch)
  have q: "map_of [(''query'', JStr ''X'')] ''query'' = Some (JStr ''X'')" "truthy (JStr ''X'')"
    by simp_all
  have first: \<open>handle_agent_search sample_lib manager_live
                  (tool_use ''agentSearch'' (JStr ''t1'') ''{"query": "X"}'')
       = (Inr (reply (search_starting sample_lib ''agentSearch'' (JStr ''X'')) ''success''),
          manager_live
            \<lparr>loop_tasks :=
               [\<lparr>task_tool_use_id = JStr ''t1'', task_tool_name = ''agentSearch'',
                 task_work = AgentSearchWork (JStr ''X'') (JStr ''t1'')\<rparr>],
             active_background_tasks :=
               [JStr ''t1'' \<mapsto>
                  \<lparr>task_tool_use_id = JStr ''t1'', task_tool_name = ''agentSearch'',
                   task_work = AgentSearchWork (JStr ''X'') (JStr ''t1'')\<rparr>]\<rparr>)\<close>
    by (simp add: agent_search_checked [OF _ _ sample_loads_X q] lower_agentSearch
          manager_live_def manager_init_def)
  have second: \<open>handle_agent_search sample_lib
        (manager_live
            \<lparr>loop_tasks :=
               [\<lparr>task_tool_use_id = JStr ''t1'', task_tool_name = ''agentSearch'',
                 task_work = AgentSearchWork (JStr ''X'') (JStr ''t1'')\<rparr>],
             active_background_tasks :=
               [JStr ''t1'' \<mapsto>
                  \<lparr>task_tool_use_id = JStr ''t1'', task_tool_name = ''agentSearch'',
                   task_work = AgentSearchWork (JStr ''X'') (JStr ''t1'')\<rparr>]\<rparr>)
        (tool_use ''agentSearch'' (JStr ''t2'') ''{"query": "X"}'')
       = (Inr (reply (search_starting sample_lib ''agentSearch'' (JStr ''X'')) ''success''),
          manager_live
            \<lparr>loop_tasks :=
               [\<lparr>task_tool_use_id = JStr ''t1'', task_tool_name = ''agentSearch'',
                 task_work = AgentSearchWork (JStr ''X'') (JStr ''t1'')\<rparr>,
                \<lparr>task_tool_use_id = JStr ''t2'', task_tool_name = ''agentSearch'',
                 task_work = AgentSearchWork (JStr ''X'') (JStr ''t2'')\<rparr>],
             active_background_tasks :=
               [JStr ''t1'' \<mapsto>
                  \<lparr>task_tool_use_id = JStr ''t1'', task_tool_name = ''agentSearch'',
                   task_work = AgentSearchWork (JStr ''X'') (JStr ''t1'')\<rparr>,
                JStr ''t2'' \<mapsto>
                  \<lparr>task_tool_use_id = JStr ''t2'', task_tool_name = ''agentSearch'',
                   task_work = AgentSearchWork (JStr ''X'') (JStr ''t2'')\<rparr>]\<rparr>)\<close>
    by (simp add: agent_search_checked [OF _ _ sample_loads_X q] lower_agentSearch
          manager_live_def manager_init_def)
  show ?thesis
    unfolding first snd_conv second fst_conv
    using cached refused by simp
qed

section \<open>The result cache is consumed on read\<close>

text \<open>
  Claim C3, as the code has it. The cache holds one payload per lower-cased tool name, and
  a completion writes over what is there. Let a result be cached under the name of the
  tool. An invocation that fails one of the handler's input checks (an invocation id
  that is missing or empty; a content that is not JSON or does not parse to an object;
  for agentSearch also a missing or empty query) is answered with status \<^verbatim>\<open>error\<close> and
  leaves the entry in place. The first invocation that passes the checks pops the entry
  and returns it with status \<^verbatim>\<open>success\<close>. A second invocation that passes them, with no
  completion in between, finds no entry: it is answered with one of the two placeholders
  (with status \<^verbatim>\<open>error\<close> when its id is unhashable), and the cache still has no entry
  under the name. This holds for \<^verbatim>\<open>handle_agent_search\<close> and, with the checks of that
  handler, which knows no query, for \<^verbatim>\<open>handle_imageanalyzer\<close>.
\<close>

theorem cached_result_is_consumed:
  assumes "completed_async_tool_results s (lower n) = Some p"
      and "popped = s\<lparr>completed_async_tool_results :=
                        (completed_async_tool_results s)(lower n := None)\<rparr>"
  shows "((\<not> truthy i \<or> json_loads_str L c = None
           \<or> (\<exists>v. json_loads_str L c = Some v \<and> (\<forall>kv. v \<noteq> JObject kv))
           \<or> (\<exists>input. json_loads_str L c = Some (JObject input)
                 \<and> \<not> truthy (case map_of input ''query'' of None \<Rightarrow> JStr [] | Some x \<Rightarrow> x)))
          \<longrightarrow> (\<exists>msg. handle_agent_search L s (tool_use n i c) = (Inr (reply msg ''error''), s)))
       \<and> (truthy i \<and> json_loads_str L c = Some (JObject input)
            \<and> map_of input ''query'' = Some q \<and> truthy q \<longrightarrow>
            handle_agent_search L s (tool_use n i c)
              = (Inr (reply (json_dumps L p) ''success''), popped)
            \<and> (truthy i2 \<and> json_loads_str L c2 = Some (JObject input2)
                 \<and> map_of input2 ''query'' = Some q2 \<and> truthy q2 \<longrightarrow>
                 (fst (handle_agent_search L popped (tool_use n i2 c2))
                    = (if \<not> hashable i2
                       then Inr (reply (''An unexpected error occurred while initiating ''
                                        @ n @ ''.'') ''error'')
                       else if dict_key i2 \<in> dom (active_background_tasks s)
                       then Inr (reply (search_still_working L n q2) ''success'')
                       else Inr (reply (search_starting L n q2) ''success'')))
                 \<and> completed_async_tool_results
                      (snd (handle_agent_search L popped (tool_use n i2 c2))) (lower n) = None))
       \<and> ((\<not> truthy j \<or> json_loads_str L d = None
            \<or> (\<exists>v. json_loads_str L d = Some v \<and> (\<forall>kv. v \<noteq> JObject kv)))
          \<longrightarrow> (\<exists>msg. handle_imageanalyzer L s (tool_use n j d) = (Inr (reply msg ''error''), s)))
       \<and> (truthy j \<and> json_loads_str L d = Some (JObject dinput) \<longrightarrow>
            handle_imageanalyzer L s (tool_use n j d)
              = (Inr (reply (case p of JObject kv \<Rightarrow> json_dumps L p | _ \<Rightarrow> py_str L p)
                            ''success''), popped)
            \<and> (truthy j2 \<and> json_loads_str L d2 = Some (JObject dinput2) \<longrightarrow>
                 (fst (handle_imageanalyzer L popped (tool_use n j2 d2))
                    = (if \<not> hashable j2
                       then Inr (reply (''An unexpected error occurred while initiating ''
                                        @ n @ ''.'') ''error'')
                       else if dict_key j2 \<in> dom (active_background_tasks s)
                       then Inr (reply image_still_processing ''success'')
                       else Inr (reply (image_starting L
                                   (case map_of dinput2 ''context'' of
                                      None \<Rightarrow> JStr ''the current page content''
                                    | Some x \<Rightarrow> x)) ''success'')))
                 \<and> completed_async_tool_results
                      (snd (handle_imageanalyzer L popped (tool_use n j2 d2))) (lower n) = None))
       \<and> (\<forall>u w p'. completed_async_tool_results
                       (task_wrapper L \<lparr>task_tool_use_id = u, task_tool_name = n, task_work = w\<rparr>
                          (Returned p') s) (lower n) = Some p')"
proof -
  note search = handle_agent_search_on_tool_use
  note image = handle_imageanalyzer_on_tool_use
  have search_refused:
    "(\<not> truthy i \<or> json_loads_str L c = None
           \<or> (\<exists>v. json_loads_str L c = Some v \<and> (\<forall>kv. v \<noteq> JObject kv))
           \<or> (\<exists>input. json_loads_str L c = Some (JObject input)
                 \<and> \<not> truthy (case map_of input ''query'' of None \<Rightarrow> JStr [] | Some x \<Rightarrow> x)))
          \<longrightarrow> (\<exists>msg. handle_agent_search L s (tool_use n i c) = (Inr (reply msg ''error''), s))"
  proof (intro impI, elim disjE exE conjE)
    assume "\<not> truthy i"
    then show "\<exists>msg. handle_agent_search L s (tool_use n i c) = (Inr (reply msg ''error''), s)"
      by (auto simp: search)
  next
    assume "json_loads_str L c = None"
    then show "\<exists>msg. handle_agent_search L s (tool_use n i c) = (Inr (reply msg ''error''), s)"
      by (auto simp: search)
  next
    fix v assume a: "json_loads_str L c = Some v" "\<forall>kv. v \<noteq> JObject kv"
    then obtain e where "py_get v ''query'' (JStr []) = Inl e"
      using py_get_not_object by blast
    then show "\<exists>msg. handle_agent_search L s (tool_use n i c) = (Inr (reply msg ''error''), s)"
      using a by (auto simp: search)
  next
    fix input0
    assume "json_loads_str L c = Some (JObject input0)"
       "\<not> truthy (case map_of input0 ''query'' of None \<Rightarrow> JStr [] | Some x \<Rightarrow> x)"
    then show "\<exists>msg. handle_agent_search L s (tool_use n i c) = (Inr (reply msg ''error''), s)"
      by (auto simp: search)
  qed
  have search_pops:
    "truthy i \<and> json_loads_str L c = Some (JObject input)
            \<and> map_of input ''query'' = Some q \<and> truthy q \<longrightarrow>
            handle_agent_search L s (tool_use n i c)
              = (Inr (reply (json_dumps L p) ''success''), popped)
            \<and> (truthy i2 \<and> json_loads_str L c2 = Some (JObject input2)
                 \<and> map_of input2 ''query'' = Some q2 \<and> truthy q2 \<longrightarrow>
                 (fst (handle_agent_search L popped (tool_use n i2 c2))
                    = (if \<not> hashable i2
                       then Inr (reply (''An unexpected error occurred while initiating ''
                                        @ n @ ''.'') ''error'')
                       else if dict_key i2 \<in> dom (active_background_tasks s)
                       then Inr (reply (search_still_working L n q2) ''success'')
                       else Inr (reply (search_starting L n q2) ''success'')))
                 \<and> completed_async_tool_results
                      (snd (handle_agent_search L popped (tool_use n i2 c2))) (lower n) = None)"
    by (simp add: search assms)
  have image_refused:
    "(\<not> truthy j \<or> json_loads_str L d = None
            \<or> (\<exists>v. json_loads_str L d = Some v \<and> (\<forall>kv. v \<noteq> JObject kv)))
          \<longrightarrow> (\<exists>msg. handle_imageanalyzer L s (tool_use n j d) = (Inr (reply msg ''error''), s))"
  proof (intro impI, elim disjE exE conjE)
    assume "\<not> truthy j"
    then show "\<exists>msg. handle_imageanalyzer L s (tool_use n j d) = (Inr (reply msg ''error''), s)"
      by (auto simp: image)
  next
    assume "json_loads_str L d = None"
    then show "\<exists>msg. handle_imageanalyzer L s (tool_use n j d) = (Inr (reply msg ''error''), s)"
      by (auto simp: image)
  next
    fix v assume a: "json_loads_str L d = Some v" "\<forall>kv. v \<noteq> JObject kv"
    then obtain e where "py_get v ''context'' (JStr ''the current page content'') = Inl e"
      using py_get_not_object by blast
    then show "\<exists>msg. handle_imageanalyzer L s (tool_use n j d) = (Inr (reply msg ''error''), s)"
      using a by (auto simp: image)
  qed
  have image_pops:
    "truthy j \<and> json_loads_str L d = Some (JObject dinput) \<longrightarrow>
            handle_imageanalyzer L s (tool_use n j d)
              = (Inr (reply (case p of JObject kv \<Rightarrow> json_dumps L p | _ \<Rightarrow> py_str L p)
                            ''success''), popped)
            \<and> (truthy j2 \<and> json_loads_str L d2 = Some (JObject dinput2) \<longrightarrow>
                 (fst (handle_imageanalyzer L popped (tool_use n j2 d2))
                    = (if \<not> hashable j2
                       then Inr (reply (''An unexpected error occurred while initiating ''
                                        @ n @ ''.'') ''error'')
                       else if dict_key j2 \<in> dom (active_background_tasks s)
                       then Inr (reply image_still_processing ''success'')
                       else Inr (reply (image_starting L
                                   (case map_of dinput2 ''context'' of
                                      None \<Rightarrow> JStr ''the current page content''
                                    | Some x \<Rightarrow> x)) ''success'')))
                 \<and> completed_async_tool_results
                      (snd (handle_imageanalyzer L popped (tool_use n j2 d2))) (lower n) = None)"
    by (simp add: image assms)
  have one_slot: "\<forall>u w p'. completed_async_tool_results
                       (task_wrapper L \<lparr>task_tool_use_id = u, task_tool_name = n, task_work = w\<rparr>
                          (Returned p') s) (lower n) = Some p'"
    by (simp add: task_wrapper_def Let_def)
  show ?thesis
    using search_refused search_pops image_refused image_pops one_slot by (intro conjI)
qed

theorem cached_result_is_consumed_witness:
  \<open>handle_agent_search sample_lib manager_cached
       (tool_use ''agentSearch'' (JStr ''t1'') ''{"query": "X"}'')
     = (Inr (reply (json_dumps sample_lib search_result_X) ''success''),
        manager_cached
          \<lparr>completed_async_tool_results :=
             (completed_async_tool_results manager_cached)(lower ''agentSearch'' := None)\<rparr>)
   \<and> completed_async_tool_results
        (snd (handle_agent_search sample_lib
                (manager_cached
                   \<lparr>completed_async_tool_results :=
                      (completed_async_tool_results manager_cached)
                        (lower ''agentSearch'' := None)\<rparr>)
                (tool_use ''agentSearch'' (JStr ''t2'') ''{"query": "X"}'')))
        (lower ''agentSearch'') = None
   \<and> handle_imageanalyzer sample_lib manager_cached
       (tool_use ''imageAnalyzer'' (JStr ''t3'') ''{}'')
     = (Inr (reply (json_dumps sample_lib image_result_1) ''success''),
        manager_cached
          \<lparr>completed_async_tool_results :=
             (completed_async_tool_results manager_cached)(lower ''imageAnalyzer'' := None)\<rparr>)
   \<and> fst (handle_imageanalyzer sample_lib
             (manager_cached
                \<lparr>completed_async_tool_results :=
                   (completed_async_tool_results manager_cached)
                     (lower ''imageAnalyzer'' := None)\<rparr>)
             (tool_use ''imageAnalyzer'' (JStr ''t4'') ''{}''))
     = Inr (reply (image_starting sample_lib (JStr ''the current page content'')) ''success'')
   \<and> (\<exists>msg. handle_imageanalyzer sample_lib manager_cached
               (tool_use ''imageAnalyzer'' (JStr ''t3'') ''not json'')
             = (Inr (reply msg ''error''), manager_cached))\<close>
proof -
  have hit_search: "completed_async_tool_results manager_cached (lower ''agentSearch'')
                      = Some search_result_X"
    by (simp add: manager_cached_def lower_agentSearch)
  have hit_image: "completed_async_tool_results manager_cached (lower ''imageAnalyzer'')
                     = Some image_result_1"
    by (simp add: manager_cached_def lower_imageAnalyzer)
  have pre1: \<open>truthy (JStr ''t1'')
              \<and> json_loads_str sample_lib ''{"query": "X"}'' = Some (JObject [(''query'', JStr ''X'')])
              \<and> map_of [(''query'', JStr ''X'')] ''query'' = Some (JStr ''X'')
              \<and> truthy (JStr ''X'')\<close>
    by (simp add: sample_loads_X)
  have pre2: \<open>truthy (JStr ''t2'')
              \<and> json_loads_str sample_lib ''{"query": "X"}'' = Some (JObject [(''query'', JStr ''X'')])
              \<and> map_of [(''query'', JStr ''X'')] ''query'' = Some (JStr ''X'')
              \<and> truthy (JStr ''X'')\<close>
    by (simp add: sample_loads_X)
  have pre3: \<open>truthy (JStr ''t3'') \<and> json_loads_str sample_lib ''{}'' = Some (JObject [])\<close>
    by (simp add: sample_loads_empty_object)
  have pre4: \<open>truthy (JStr ''t4'') \<and> json_loads_str sample_lib ''{}'' = Some (JObject [])\<close>
    by (simp add: sample_loads_empty_object)
  have bad: "\<not> truthy (JStr ''t3'') \<or> json_loads_str sample_lib ''not json'' = None
             \<or> (\<exists>v. json_loads_str sample_lib ''not json'' = Some v \<and> (\<forall>kv. v \<noteq> JObject kv))"
    by (simp add: sample_loads_not_json)
  note S = cached_result_is_consumed
             [where n = "''agentSearch''" and s = manager_cached and L = sample_lib,
              OF hit_search refl]
  note I = cached_result_is_consumed
             [where n = "''imageAnalyzer''" and s = manager_cached and L = sample_lib,
              OF hit_image refl]
  note s_pops = S [THEN conjunct2, THEN conjunct1, THEN mp, OF pre1]
  note s_first = s_pops [THEN conjunct1]
  note s_second = s_pops [THEN conjunct2, THEN mp, OF pre2, THEN conjunct2]
  note i_pops = I [THEN conjunct2, THEN conjunct2, THEN conjunct2, THEN conjunct1,
                   THEN mp, OF pre3]
  note i_first = i_pops [THEN conjunct1]
  note i_second = i_pops [THEN conjunct2, THEN mp, OF pre4, THEN conjunct1]
  note i_refused = I [THEN conjunct2, THEN conjunct2, THEN conjunct1, THEN mp, OF bad]
  have free: "dict_key (JStr ''t4'') \<notin> dom (active_background_tasks manager_cached)"
    by (simp add: manager_cached_def manager_init_def)
  have result_is_dict: "(case image_result_1 of JObject kv \<Rightarrow> json_dumps sample_lib image_result_1
                          | _ \<Rightarrow> py_str sample_lib image_result_1)
                        = json_dumps sample_lib image_result_1"
    by (simp add: image_result_1_def)
  show ?thesis
    using s_first s_second i_first i_second i_refused free result_is_dict
    by simp
qed

text \<open>
  The claim as written fails on an invocation that does not pass the checks. With an image
  description and a search result cached, the image handler called with a content that is
  not JSON, and the search handler called without a query, answer with an error and leave
  the cache as it is.
\<close>

theorem invalid_invocation_keeps_cache:
  \<open>completed_async_tool_results manager_cached (lower ''imageAnalyzer'') = Some image_result_1
   \<and> handle_imageanalyzer sample_lib manager_cached
        (tool_use ''imageAnalyzer'' (JStr ''t3'') ''not json'')
       = (Inr (reply ''Error: Invalid input format for imageAnalyzer tool.'' ''error''),
          manager_cached)
   \<and> completed_async_tool_results manager_cached (lower ''agentSearch'') = Some search_result_X
   \<and> handle_agent_search sample_lib manager_cached
        (tool_use ''agentSearch'' (JStr ''t3'') ''{}'')
       = (Inr (reply ''Please provide a query for agentSearch.'' ''error''), manager_cached)\<close>
proof -
  have a: "completed_async_tool_results manager_cached (lower ''imageAnalyzer'')
             = Some image_result_1"
    by (simp add: manager_cached_def lower_imageAnalyzer)
  have b: "handle_imageanalyzer sample_lib manager_cached
             (tool_use ''imageAnalyzer'' (JStr ''t3'') ''not json'')
           = (Inr (reply ''Error: Invalid input format for imageAnalyzer tool.'' ''error''),
              manager_cached)"
    by (simp add: handle_imageanalyzer_def imageanalyzer_body_def tool_use_def json_loads_def
          sample_loads_not_json lower_imageAnalyzer)
  have c: "completed_async_tool_results manager_cached (lower ''agentSearch'')
             = Some search_result_X"
    by (simp add: manager_cached_def lower_agentSearch)
  have d: \<open>handle_agent_search sample_lib manager_cached
             (tool_use ''agentSearch'' (JStr ''t3'') ''{}'')
           = (Inr (reply ''Please provide a query for agentSearch.'' ''error''), manager_cached)\<close>
    by (simp add: handle_agent_search_def agent_search_body_def tool_use_def json_loads_def
          sample_loads_empty_object lower_agentSearch)
  show ?thesis
    using a b c d by blast
qed

end
